theory Spec2Isabelle
  imports
    Complex_Main
    "HOL-Library.Char_ord"
    "HOL-Library.List_Lexorder"
    "HOL-Library.Option_ord"
    "HOL-Library.AList"
begin

section \<open>Python values and the string operations the builders use\<close>

text \<open>
  Strings are ASCII strings (one \<open>char\<close> per character).  A Python float is kept as the
  exact decimal value its literal denotes (rounding to binary64 and the sign of zero are
  not modelled), or one of the three special values.  \<open>NaN\<close> is also \<open>numpy.nan\<close>.
\<close>

datatype pyfloat = Fin rat | PosInf | NegInf | NaN

datatype pyval = Str string | Float pyfloat | PyNone

datatype error = KeyError | IndexError | ValueError | AttributeError | OSError | ConnectionError

text \<open>A dict keeps its keys in insertion order; \<open>d[k] = v\<close> is \<open>AList.update k v d\<close>.\<close>

type_synonym attrs = "(string \<times> pyval) list"

text \<open>
  Reading a field that the code goes on to use as a string (\<open>.startswith\<close>, \<open>.split\<close>, an
  f-string between two slashes).  The template matcher binds strings only, and the fields
  read this way are read before the parser overwrites them, so the last branch is never
  taken on a mapping that comes from the matcher.
\<close>

definition getitem_str :: "attrs \<Rightarrow> string \<Rightarrow> error + string" where
  "getitem_str d k =
     (case map_of d k of
        None \<Rightarrow> Inl KeyError
      | Some (Str s) \<Rightarrow> Inr s
      | Some _ \<Rightarrow> Inl AttributeError)"

text \<open>\<open>xs[i]\<close> with Python's negative indices; out of range raises.\<close>

definition py_index :: "'a list \<Rightarrow> int \<Rightarrow> error + 'a" where
  "py_index xs i =
     (if 0 \<le> i \<and> i < int (length xs) then Inr (xs ! nat i)
      else if i < 0 \<and> - int (length xs) \<le> i then Inr (xs ! nat (int (length xs) + i))
      else Inl IndexError)"

definition startswith :: "string \<Rightarrow> string \<Rightarrow> bool" where
  "startswith s p = (take (length p) s = p)"

text \<open>
  \<open>s.split(sep)\<close> for a non-empty \<open>sep\<close>: the pieces between the non-overlapping
  occurrences of \<open>sep\<close>, found from the left.  (Python raises \<open>ValueError\<close> on an empty
  separator; \<open>py_split_checked\<close> is the call with that check.)
\<close>

function split_from :: "string \<Rightarrow> string \<Rightarrow> string \<Rightarrow> string list" where
  "split_from sep acc [] = [rev acc]"
| "split_from sep acc (c # cs) =
     (if sep \<noteq> [] \<and> startswith (c # cs) sep
      then rev acc # split_from sep [] (drop (length sep - 1) cs)
      else split_from sep (c # acc) cs)"
  by pat_completeness auto
termination
  by (relation "measure (\<lambda>(sep, acc, s). length s)") auto

definition py_split :: "string \<Rightarrow> string \<Rightarrow> string list" where
  "py_split s sep = split_from sep [] s"

definition py_split_checked :: "string \<Rightarrow> string \<Rightarrow> error + string list" where
  "py_split_checked s sep =
     (if sep = [] then Inl ValueError else Inr (py_split s sep))"

text \<open>\<open>s.strip(chars)\<close> and \<open>s.rstrip(chars)\<close>.\<close>

definition py_rstrip :: "string \<Rightarrow> string \<Rightarrow> string" where
  "py_rstrip s chars = rev (dropWhile (\<lambda>c. c \<in> set chars) (rev s))"

definition py_strip :: "string \<Rightarrow> string \<Rightarrow> string" where
  "py_strip s chars = py_rstrip (dropWhile (\<lambda>c. c \<in> set chars) s) chars"

text \<open>
  \<open>os.path.basename\<close> and \<open>os.path.dirname\<close> of \<open>posixpath\<close>: the path is cut after its
  last slash; the head loses its trailing slashes unless it consists of slashes only.
\<close>

definition basename :: "string \<Rightarrow> string" where
  "basename p = rev (takeWhile (\<lambda>c. c \<noteq> CHR ''/'') (rev p))"

definition dirname :: "string \<Rightarrow> string" where
  "dirname p =
     (let head = rev (dropWhile (\<lambda>c. c \<noteq> CHR ''/'') (rev p))
      in if head \<noteq> [] \<and> \<not> list_all (\<lambda>c. c = CHR ''/'') head
         then py_rstrip head ''/'' else head)"

subsection \<open>\<open>float(s)\<close> on a string\<close>

text \<open>
  \<open>float\<close> strips white space (tab, line feed, vertical tab, form feed, carriage return
  and space), accepts underscores between digits, an optional sign, and
  then either \<open>inf\<close>, \<open>infinity\<close> or \<open>nan\<close> in any case, or a decimal number with an
  optional fraction and an optional exponent.  Anything else raises \<open>ValueError\<close>
  (\<open>None\<close> here).
\<close>

definition is_digit :: "char \<Rightarrow> bool" where
  "is_digit c = (CHR ''0'' \<le> c \<and> c \<le> CHR ''9'')"

definition whitespace :: string where
  "whitespace =
     [CHR 0x09, CHR 0x0A, CHR 0x0B, CHR 0x0C, CHR 0x0D, CHR 0x20]"

definition digit_val :: "char \<Rightarrow> nat" where
  "digit_val c = of_char c - 48"

definition nat_of_digits :: "string \<Rightarrow> nat" where
  "nat_of_digits ds = foldl (\<lambda>n c. 10 * n + digit_val c) 0 ds"

definition lower :: "string \<Rightarrow> string" where
  "lower s =
     map (\<lambda>c. if CHR ''A'' \<le> c \<and> c \<le> CHR ''Z'' then char_of (of_char c + (32::nat)) else c) s"

fun drop_underscores :: "char \<Rightarrow> string \<Rightarrow> string option" where
  "drop_underscores prev [] = (if prev = CHR ''_'' then None else Some [])"
| "drop_underscores prev (c # cs) =
     (if c = CHR ''_''
      then (if is_digit prev then drop_underscores c cs else None)
      else if prev = CHR ''_'' \<and> \<not> is_digit c then None
      else map_option ((#) c) (drop_underscores c cs))"

text \<open>The sign and what follows it.\<close>

definition split_sign :: "string \<Rightarrow> bool \<times> string" where
  "split_sign s =
     (case s of
        c # cs \<Rightarrow> if c = CHR ''-'' then (True, cs) else if c = CHR ''+'' then (False, cs)
                  else (False, s)
      | [] \<Rightarrow> (False, s))"

text \<open>An exponent part: empty, or \<open>e\<close>, an optional sign and at least one digit.\<close>

definition parse_exponent :: "string \<Rightarrow> int option" where
  "parse_exponent s =
     (case s of
        [] \<Rightarrow> Some 0
      | c # cs \<Rightarrow>
          if c = CHR ''e'' \<or> c = CHR ''E''
          then (case split_sign cs of
                  (neg, ds) \<Rightarrow>
                    if ds \<noteq> [] \<and> list_all is_digit ds
                    then Some (if neg then - int (nat_of_digits ds) else int (nat_of_digits ds))
                    else None)
          else None)"

definition scale10 :: "rat \<Rightarrow> int \<Rightarrow> rat" where
  "scale10 x e = (if 0 \<le> e then x * 10 ^ nat e else x / 10 ^ nat (- e))"

definition parse_decimal :: "string \<Rightarrow> rat option" where
  "parse_decimal s =
     (let ip = takeWhile is_digit s;
          r1 = dropWhile is_digit s;
          has_point = (r1 \<noteq> [] \<and> hd r1 = CHR ''.'');
          r2 = (if has_point then tl r1 else r1);
          fp = (if has_point then takeWhile is_digit r2 else []);
          r3 = (if has_point then dropWhile is_digit r2 else r2)
      in if ip = [] \<and> fp = [] then None
         else (case parse_exponent r3 of
                 None \<Rightarrow> None
               | Some e \<Rightarrow>
                   Some (scale10 (of_nat (nat_of_digits (ip @ fp))) (e - int (length fp)))))"

definition py_float :: "string \<Rightarrow> pyfloat option" where
  "py_float s =
     (case drop_underscores (CHR 0x00) (py_strip s whitespace) of
        None \<Rightarrow> None
      | Some t \<Rightarrow>
          (case split_sign t of
             (neg, u) \<Rightarrow>
               if lower u = ''inf'' \<or> lower u = ''infinity''
               then Some (if neg then NegInf else PosInf)
               else if lower u = ''nan'' then Some NaN
               else (case parse_decimal u of
                       None \<Rightarrow> None
                     | Some q \<Rightarrow> Some (Fin (if neg then - q else q)))))"

section \<open>The two collaborators of \<open>core\<close> that the parsers call\<close>

text \<open>
  \<open>reverse_filename_format\<close> and \<open>extract_attr_with_regex\<close> are imported from \<open>core\<close>.
  The parsers below take them as parameters \<open>rff\<close> and \<open>extract\<close>, so what is proved of
  a parser holds whatever the two return.  \<open>rff\<close> returns the bound fields, all strings,
  and the empty mapping when no template fits; \<open>extract\<close> returns the matched text or
  \<open>None\<close>.  A template is its sequence of placeholders and literal separators, a regular
  expression its alternatives, each a sequence of literal characters and \<open>\d\<close>.
\<close>

datatype tok = Placeholder string | Lit string

type_synonym template = "tok list"

datatype atom = Chr char | Digit

type_synonym regex = "atom list list"

type_synonym matcher = "string \<Rightarrow> template list \<Rightarrow> (string \<times> string) list"

type_synonym extractor = "string \<Rightarrow> regex \<Rightarrow> string option \<Rightarrow> string option"

definition lit :: "string \<Rightarrow> atom list" where
  "lit s = map Chr s"

subsection \<open>The template matcher, from its contract\<close>

text \<open>\<open>s.split(l, 1)\<close> when \<open>l\<close> occurs in \<open>s\<close>: the text before and after its first occurrence.\<close>

fun cut_at :: "string \<Rightarrow> string \<Rightarrow> string \<Rightarrow> (string \<times> string) option" where
  "cut_at l acc [] = (if l = [] then Some (rev acc, []) else None)"
| "cut_at l acc (c # cs) =
     (if startswith (c # cs) l then Some (rev acc, drop (length l) (c # cs))
      else cut_at l (c # acc) cs)"

text \<open>
  Modelled from the spec: the match of one template against a file name, in
  \<open>reverse_filename_format\<close> of \<open>core\<close>.  The name is cut at the template's literal
  segments in turn, each placeholder takes the text before the literal that follows it,
  and the name must be used up.
\<close>

fun match_template :: "template \<Rightarrow> string \<Rightarrow> (string \<times> string) list option" where
  "match_template [] s = (if s = [] then Some [] else None)"
| "match_template (Lit l # ts) s =
     (if startswith s l then match_template ts (drop (length l) s) else None)"
| "match_template [Placeholder f] s = Some [(f, s)]"
| "match_template (Placeholder f # Lit l # ts) s =
     (case cut_at l [] s of
        None \<Rightarrow> None
      | Some (before, after) \<Rightarrow> map_option ((#) (f, before)) (match_template ts after))"
| "match_template (Placeholder f # Placeholder g # ts) s = None"

text \<open>
  Modelled from the spec: \<open>reverse_filename_format\<close> of \<open>core\<close>, which is not among the
  sources.  The templates are tried in list order and the first that fits binds its
  placeholders; when none fits the result is the empty mapping.
\<close>

fun reverse_filename_format :: matcher where
  "reverse_filename_format filename [] = []"
| "reverse_filename_format filename (t # ts) =
     (case match_template t filename of
        Some x \<Rightarrow> x
      | None \<Rightarrow> reverse_filename_format filename ts)"

subsection \<open>The path attribute extractor, from its contract\<close>

text \<open>
  Modelled from the spec: the pattern search in \<open>extract_attr_with_regex\<close> of \<open>core\<close>, for
  the patterns the parsers pass.  \<open>match_atoms\<close> matches one alternative at the start of a
  string and returns the matched text.
\<close>

fun match_atoms :: "atom list \<Rightarrow> string \<Rightarrow> string option" where
  "match_atoms [] s = Some []"
| "match_atoms (a # as) [] = None"
| "match_atoms (Chr x # as) (c # cs) =
     (if c = x then map_option ((#) c) (match_atoms as cs) else None)"
| "match_atoms (Digit # as) (c # cs) =
     (if is_digit c then map_option ((#) c) (match_atoms as cs) else None)"

text \<open>The first alternative, in the order written, that matches at the start of \<open>s\<close>.\<close>

fun match_here :: "regex \<Rightarrow> string \<Rightarrow> string option" where
  "match_here [] s = None"
| "match_here (alt # alts) s =
     (case match_atoms alt s of Some m \<Rightarrow> Some m | None \<Rightarrow> match_here alts s)"

text \<open>The leftmost match.\<close>

fun search :: "regex \<Rightarrow> string \<Rightarrow> string option" where
  "search r [] = match_here r []"
| "search r (c # cs) =
     (case match_here r (c # cs) of Some m \<Rightarrow> Some m | None \<Rightarrow> search r cs)"

text \<open>
  Modelled from the spec: \<open>extract_attr_with_regex\<close> of \<open>core\<close>, which is not among the
  sources.  One search over the given string; the first match is returned, with the
  characters of \<open>strip_chars\<close> removed from both ends when they are given; no match gives
  the missing marker \<open>None\<close>, never an exception.
\<close>

definition extract_attr_with_regex :: extractor where
  "extract_attr_with_regex input_str rx strip_chars =
     (case search rx input_str of
        None \<Rightarrow> None
      | Some m \<Rightarrow> Some (case strip_chars of None \<Rightarrow> m | Some cs \<Rightarrow> py_strip m cs))"

section \<open>The convention parsers\<close>

text \<open>\<open>x or 'v0'\<close>: the default replaces \<open>None\<close> and the empty string.\<close>

definition or_default :: "string option \<Rightarrow> string \<Rightarrow> string" where
  "or_default x d = (case x of None \<Rightarrow> d | Some v \<Rightarrow> if v = [] then d else v)"

definition opt_val :: "string option \<Rightarrow> pyval" where
  "opt_val x = (case x of None \<Rightarrow> PyNone | Some v \<Rightarrow> Str v)"

definition from_match :: "(string \<times> string) list \<Rightarrow> attrs" where
  "from_match m = map (\<lambda>(k, v). (k, Str v)) m"

text \<open>\<open>version_regex = r'v\d{4}\d{2}\d{2}|v\d{1}'\<close>, the same in both parsers.\<close>

definition version_regex :: regex where
  "version_regex =
     [Chr CHR ''v'' # replicate 4 Digit @ replicate 2 Digit @ replicate 2 Digit,
      Chr CHR ''v'' # replicate 1 Digit]"

subsection \<open>\<open>cmip6_parser\<close>\<close>

definition cmip6_filename_template :: template where
  "cmip6_filename_template =
     [Placeholder ''variable_id'', Lit ''_'', Placeholder ''table_id'', Lit ''_'', Placeholder ''source_id'',
      Lit ''_'', Placeholder ''experiment_id'', Lit ''_'', Placeholder ''member_id'', Lit ''_'',
      Placeholder ''grid_label'', Lit ''_'', Placeholder ''time_range'', Lit ''.nc'']"

definition cmip6_gridspec_template :: template where
  "cmip6_gridspec_template =
     [Placeholder ''variable_id'', Lit ''_'', Placeholder ''table_id'', Lit ''_'', Placeholder ''source_id'',
      Lit ''_'', Placeholder ''experiment_id'', Lit ''_'', Placeholder ''member_id'', Lit ''_'',
      Placeholder ''grid_label'', Lit ''.nc'']"

text \<open>Lines 32 to 39: what the matcher binds in the file name.\<close>

definition cmip6_templates :: "template list" where
  "cmip6_templates = [cmip6_filename_template, cmip6_gridspec_template]"

definition cmip6_fileparts :: "matcher \<Rightarrow> string \<Rightarrow> (string \<times> string) list" where
  "cmip6_fileparts rff filepath = rff (basename filepath) cmip6_templates"

text \<open>
  The body of the \<open>try\<close> block, lines 41 to 56, runs on the dict \<open>fileparts\<close>, which it
  updates in place.  Its result is \<open>Inl (e, d)\<close> when a statement raised \<open>e\<close> and the dict
  was \<open>d\<close> at that moment, and \<open>Inr d\<close> when the block ran to its end.  \<open>step d r k\<close> is one
  statement that may raise: \<open>r\<close> is what it computes, \<open>d\<close> the dict it runs on, \<open>k\<close> the
  rest of the block.
\<close>

definition step ::
  "attrs \<Rightarrow> error + 'a \<Rightarrow> ('a \<Rightarrow> (error \<times> attrs) + attrs) \<Rightarrow> (error \<times> attrs) + attrs" where
  "step d r k = (case r of Inl e \<Rightarrow> Inl (e, d) | Inr x \<Rightarrow> k x)"

text \<open>Lines 52 to 56: the initialisation year of a decadal prediction member.\<close>

definition cmip6_member :: "attrs \<Rightarrow> (error \<times> attrs) + attrs" where
  "cmip6_member fileparts =
     step fileparts (getitem_str fileparts ''member_id'') (\<lambda>member_id.
     if startswith member_id ''s''
     then
       step fileparts (py_index (py_split member_id ''-'') 0) (\<lambda>prefix.
       step fileparts
         (case py_float (drop 1 prefix) of
            None \<Rightarrow> Inl ValueError
          | Some year \<Rightarrow> Inr year) (\<lambda>year.
       let fileparts1 = AList.update ''dcpp_init_year'' (Float year) fileparts in
       step fileparts1 (py_index (py_split member_id ''-'') (- 1)) (\<lambda>suffix.
       Inr (AList.update ''member_id'' (Str suffix) fileparts1))))
     else Inr (AList.update ''dcpp_init_year'' (Float NaN) fileparts))"

text \<open>Lines 48 to 51: the version, searched in \<open>parent\<close>, and the path.\<close>

definition cmip6_version :: "extractor \<Rightarrow> string \<Rightarrow> string \<Rightarrow> attrs \<Rightarrow> attrs" where
  "cmip6_version extract parent filepath fileparts =
     (let version = or_default (extract parent version_regex None) ''v0'';
          fileparts1 = AList.update ''version'' (Str version) fileparts
      in AList.update ''path'' (Str filepath) fileparts1)"

text \<open>Lines 41 to 47, and then the rest of the block.\<close>

definition cmip6_try :: "extractor \<Rightarrow> string \<Rightarrow> attrs \<Rightarrow> (error \<times> attrs) + attrs" where
  "cmip6_try extract filepath fileparts =
     (let parent = py_strip (dirname filepath) ''/'' in
      step fileparts (getitem_str fileparts ''source_id'') (\<lambda>source_id.
      let parent_split = py_split parent (''/'' @ source_id @ ''/'') in
      step fileparts (py_index parent_split 0) (\<lambda>head.
      let part_1 = py_split (py_strip head ''/'') ''/'' in
      step fileparts (getitem_str fileparts ''variable_id'') (\<lambda>variable_id.
      step fileparts (py_index (py_split parent (''/'' @ variable_id @ ''/'')) 1) (\<lambda>below.
      step fileparts (py_index (py_split (py_strip below ''/'') ''/'') 0) (\<lambda>grid_label.
      let fileparts1 = AList.update ''grid_label'' (Str grid_label) fileparts in
      step fileparts1 (py_index part_1 (- 2)) (\<lambda>activity_id.
      let fileparts2 = AList.update ''activity_id'' (Str activity_id) fileparts1 in
      step fileparts2 (py_index part_1 (- 1)) (\<lambda>institution_id.
      let fileparts3 = AList.update ''institution_id'' (Str institution_id) fileparts2
      in cmip6_member (cmip6_version extract parent filepath fileparts3)))))))))"

text \<open>\<open>except Exception: pass\<close> and \<open>return fileparts\<close>: the dict as the block left it.\<close>

definition cmip6_parser :: "matcher \<Rightarrow> extractor \<Rightarrow> string \<Rightarrow> attrs" where
  "cmip6_parser rff extract filepath =
     (case cmip6_try extract filepath (from_match (cmip6_fileparts rff filepath)) of
        Inl (e, d) \<Rightarrow> d
      | Inr d \<Rightarrow> d)"

subsection \<open>\<open>cmip5_parser\<close>\<close>

text \<open>
  \<open>freq_regex = r'/3hr/|/6hr/|/day/|/fx/|/mon/|/monClim/|/subhr/|/yr/'\<close> and
  \<open>realm_regex = r'aerosol|atmos|land|landIce|ocean|ocnBgchem|seaIce'\<close>.
\<close>

definition freq_regex :: regex where
  "freq_regex =
     map lit [''/3hr/'', ''/6hr/'', ''/day/'', ''/fx/'', ''/mon/'', ''/monClim/'', ''/subhr/'',
              ''/yr/'']"

definition realm_regex :: regex where
  "realm_regex =
     map lit [''aerosol'', ''atmos'', ''land'', ''landIce'', ''ocean'', ''ocnBgchem'', ''seaIce'']"

definition cmip5_filename_template :: template where
  "cmip5_filename_template =
     [Placeholder ''variable'', Lit ''_'', Placeholder ''mip_table'', Lit ''_'', Placeholder ''model'', Lit ''_'',
      Placeholder ''experiment'', Lit ''_'', Placeholder ''ensemble_member'', Lit ''_'',
      Placeholder ''temporal_subset'', Lit ''.nc'']"

definition cmip5_gridspec_template :: template where
  "cmip5_gridspec_template =
     [Placeholder ''variable'', Lit ''_'', Placeholder ''mip_table'', Lit ''_'', Placeholder ''model'', Lit ''_'',
      Placeholder ''experiment'', Lit ''_'', Placeholder ''ensemble_member'', Lit ''.nc'']"

text \<open>\<open>part1, part2 = xs\<close> raises unless \<open>xs\<close> has exactly two elements.\<close>

definition unpack2 :: "'a list \<Rightarrow> error + ('a \<times> 'a)" where
  "unpack2 xs =
     (case xs of
        [a, b] \<Rightarrow> Inr (a, b)
      | _ \<Rightarrow> Inl ValueError)"

text \<open>The \<open>try\<close> block, lines 93 to 96.\<close>

definition cmip5_try :: "string \<Rightarrow> attrs \<Rightarrow> (error \<times> attrs) + attrs" where
  "cmip5_try filepath fileparts =
     step fileparts (getitem_str fileparts ''experiment'') (\<lambda>experiment.
     step fileparts (py_split_checked (dirname filepath) experiment) (\<lambda>parts.
     step fileparts (unpack2 parts) (\<lambda>(part1, part2).
     let part1' = py_split (py_strip part1 ''/'') ''/'' in
     step fileparts (py_index part1' (- 2)) (\<lambda>institute.
     let fileparts1 = AList.update ''institute'' (Str institute) fileparts in
     step fileparts1 (py_index part1' (- 3)) (\<lambda>product_id.
     Inr (AList.update ''product_id'' (Str product_id) fileparts1))))))"

definition cmip5_parser :: "matcher \<Rightarrow> extractor \<Rightarrow> string \<Rightarrow> attrs" where
  "cmip5_parser rff extract filepath =
     (let templates = [cmip5_filename_template, cmip5_gridspec_template];
          fileparts = from_match (rff (basename filepath) templates);
          frequency = extract filepath freq_regex (Some ''/'');
          realm = extract filepath realm_regex None;
          version = or_default (extract filepath version_regex None) ''v0'';
          fileparts1 = AList.update ''frequency'' (opt_val frequency) fileparts;
          fileparts2 = AList.update ''modeling_realm'' (opt_val realm) fileparts1;
          fileparts3 = AList.update ''version'' (Str version) fileparts2;
          fileparts4 = AList.update ''path'' (Str filepath) fileparts3
      in case cmip5_try filepath fileparts4 of
           Inl (e, d) \<Rightarrow> d
         | Inr d \<Rightarrow> d)"

text \<open>
  When lines 42 to 47 of \<open>cmip6_parser\<close> raise nothing: the matcher has bound \<open>source_id\<close>
  and \<open>variable_id\<close>, the directory part holds a \<open>/<variable_id>/\<close>, and what precedes
  \<open>/<source_id>/\<close> in it has two segments at least.
\<close>

definition cmip6_dirs_found :: "matcher \<Rightarrow> string \<Rightarrow> bool" where
  "cmip6_dirs_found rff filepath =
     (let m = cmip6_fileparts rff filepath;
          parent = py_strip (dirname filepath) ''/''
      in case (map_of m ''source_id'', map_of m ''variable_id'') of
           (Some source_id, Some variable_id) \<Rightarrow>
             2 \<le> length (py_split parent (''/'' @ variable_id @ ''/'')) \<and>
             2 \<le> length (py_split (py_strip (hd (py_split parent (''/'' @ source_id @ ''/''))) ''/'') ''/'')
         | _ \<Rightarrow> False)"

text \<open>The dict after the three assignments of lines 45 to 47.\<close>

definition cmip6_dirs :: "attrs \<Rightarrow> string \<Rightarrow> string \<Rightarrow> string \<Rightarrow> attrs" where
  "cmip6_dirs d grid_label activity_id institution_id =
     AList.update ''institution_id'' (Str institution_id)
       (AList.update ''activity_id'' (Str activity_id)
         (AList.update ''grid_label'' (Str grid_label) d))"

section \<open>The catalog\<close>

text \<open>
  A catalog row holds one value per column.  The \<open>version\<close> and \<open>path\<close> columns hold a
  string or the missing marker (\<open>None\<close> here), which is all a parser puts there; the other
  columns hold any value, \<open>Float NaN\<close> where the parser produced none.  A table is its
  column list and its rows, each under its index label.
\<close>

record row =
  cells :: "string \<Rightarrow> pyval"
  version :: "string option"
  path :: "string option"

record dataframe =
  columns :: "string list"
  rows :: "(nat \<times> row) list"

definition str_cell :: "attrs \<Rightarrow> string \<Rightarrow> string option" where
  "str_cell d c = (case map_of d c of Some (Str s) \<Rightarrow> Some s | _ \<Rightarrow> None)"

definition to_row :: "attrs \<Rightarrow> row" where
  "to_row d =
     \<lparr>cells = (\<lambda>c. case map_of d c of None \<Rightarrow> Float NaN | Some v \<Rightarrow> v),
      version = str_cell d ''version'',
      path = str_cell d ''path''\<rparr>"

text \<open>
  Modelled from the spec: \<open>Builder\<close> of \<open>core\<close>, which is not among the sources.  The
  paths that match an exclusion pattern are left out (\<open>excluded\<close> says which), the parser
  runs once on each of the others, and every mapping is projected on the column list,
  with the missing marker where it has no value.  The rows are numbered from 0.
\<close>

definition Builder ::
  "string list \<Rightarrow> (string \<Rightarrow> bool) \<Rightarrow> string list \<Rightarrow> (string \<Rightarrow> attrs) \<Rightarrow> dataframe" where
  "Builder cols excluded filelist parser =
     (let entries = map parser (filter (\<lambda>f. \<not> excluded f) filelist)
      in \<lparr>columns = cols, rows = zip [0 ..< length entries] (map to_row entries)\<rparr>)"

subsection \<open>\<open>_pick_latest_version\<close>\<close>

text \<open>What pandas takes as missing: \<open>None\<close> and \<open>NaN\<close>.\<close>

definition isna :: "pyval \<Rightarrow> bool" where
  "isna v = (v = PyNone \<or> v = Float NaN)"

text \<open>\<open>grpby = list(set(df.columns.tolist()) - {'path', 'version'})\<close>\<close>

definition grpby_cols :: "dataframe \<Rightarrow> string list" where
  "grpby_cols df = filter (\<lambda>c. c \<noteq> ''path'' \<and> c \<noteq> ''version'') (remdups (columns df))"

text \<open>
  \<open>df.groupby(grpby)\<close>: the rows are grouped by their values in the \<open>grpby\<close> columns, and
  a row with a missing value in one of them belongs to no group (pandas' \<open>dropna=True\<close>).
\<close>

definition group_key :: "string list \<Rightarrow> row \<Rightarrow> pyval list option" where
  "group_key grpby r =
     (let k = map (cells r) grpby in if list_ex isna k then None else Some k)"

definition groupby :: "string list \<Rightarrow> (nat \<times> row) list \<Rightarrow> (nat \<times> row) list list" where
  "groupby grpby rs =
     map (\<lambda>k. filter (\<lambda>ir. group_key grpby (snd ir) = Some k) rs)
         (remdups (List.map_filter (\<lambda>ir. group_key grpby (snd ir)) rs))"

text \<open>\<open>group.version.nunique()\<close> counts the distinct values that are not missing.\<close>

definition nunique :: "string option list \<Rightarrow> nat" where
  "nunique vs = length (remdups (List.map_filter id vs))"

text \<open>
  \<open>group.sort_values(by=['version'], ascending=False)\<close>: the strings in descending
  order, the missing ones last.  pandas' default sort does not fix the order of rows of
  equal version; here they keep the order they had.
\<close>

definition sort_values_version_desc :: "(nat \<times> row) list \<Rightarrow> (nat \<times> row) list" where
  "sort_values_version_desc grp = rev (sort_key (\<lambda>ir. version (snd ir)) (rev grp))"

definition pick_latest_v :: "(nat \<times> row) list \<Rightarrow> nat list" where
  "pick_latest_v grp =
     (if nunique (map (\<lambda>ir. version (snd ir)) grp) > 1
      then map fst (drop 1 (sort_values_version_desc grp))
      else [])"

text \<open>
  \<open>_pick_latest_version\<close> (a name cannot begin with an underscore here).  pandas refuses
  an empty list of group keys; \<open>df.drop(index=...)\<close> removes every row under a listed
  label.
\<close>

definition pick_latest_version :: "dataframe \<Rightarrow> error + dataframe" where
  "pick_latest_version df =
     (let grpby = grpby_cols df in
      if grpby = [] then Inl ValueError
      else
        let groups = groupby grpby (rows df);
            idx_to_remove = concat (map pick_latest_v groups)
        in Inr (df\<lparr>rows := filter (\<lambda>ir. fst ir \<notin> set idx_to_remove) (rows df)\<rparr>))"

subsection \<open>\<open>build_cmip\<close> and \<open>cli\<close>\<close>

text \<open>
  What the program does to the world, in order: it walks the directory tree
  (\<open>get_asset_list\<close>), fetches the controlled vocabulary (\<open>requests.get\<close>), writes the
  catalog (\<open>to_csv\<close>).
\<close>

datatype event =
    Traversed "string option" int
  | Fetched
  | Written string dataframe

text \<open>
  The collaborators of \<open>build_cmip\<close>: the traversal, the exclusion test of the builder,
  the two helpers of the parsers, and the keys of \<open>activity_id\<close> in the fetched document
  (or the exception the fetch ends in).
\<close>

record env =
  get_asset_list :: "string option \<Rightarrow> int \<Rightarrow> error + string list"
  excluded :: "string list \<Rightarrow> string \<Rightarrow> bool"
  matcher_of :: "matcher"
  extractor_of :: "extractor"
  fetch_activity_ids :: "error + string list"

definition cmip6_columns :: "string list" where
  "cmip6_columns =
     [''activity_id'', ''institution_id'', ''source_id'', ''experiment_id'', ''member_id'',
      ''table_id'', ''variable_id'', ''grid_label'', ''dcpp_init_year'', ''version'',
      ''time_range'', ''path'']"

definition cmip5_columns :: "string list" where
  "cmip5_columns =
     [''product_id'', ''institute'', ''model'', ''experiment'', ''frequency'',
      ''modeling_realm'', ''mip_table'', ''ensemble_member'', ''variable'',
      ''temporal_subset'', ''version'', ''path'']"

text \<open>The two dicts keyed by \<open>str(cmip_version)\<close>; any other key raises \<open>KeyError\<close>.\<close>

definition cmip_columns :: "int \<Rightarrow> error + string list" where
  "cmip_columns v =
     (if v = 6 then Inr cmip6_columns else if v = 5 then Inr cmip5_columns else Inl KeyError)"

definition parsers :: "env \<Rightarrow> int \<Rightarrow> error + (string \<Rightarrow> attrs)" where
  "parsers e v =
     (if v = 6 then Inr (cmip6_parser (matcher_of e) (extractor_of e))
      else if v = 5 then Inr (cmip5_parser (matcher_of e) (extractor_of e))
      else Inl KeyError)"

definition exclude_patterns :: "string list" where
  "exclude_patterns = [''*/files/*'', ''*/latest/*'']"

text \<open>\<open>df[df.activity_id.isin(activity_ids)]\<close>\<close>

definition isin :: "pyval \<Rightarrow> string list \<Rightarrow> bool" where
  "isin v xs = (case v of Str s \<Rightarrow> s \<in> set xs | _ \<Rightarrow> False)"

definition filter_activity_id :: "string list \<Rightarrow> dataframe \<Rightarrow> dataframe" where
  "filter_activity_id activity_ids df =
     df\<lparr>rows := filter (\<lambda>ir. isin (cells (snd ir) ''activity_id'') activity_ids) (rows df)\<rparr>"

text \<open>\<open>df.sort_values(by=['path'])\<close>: ascending, the rows with no path last.\<close>

definition sort_values_path :: "dataframe \<Rightarrow> dataframe" where
  "sort_values_path df =
     df\<lparr>rows :=
          sort_key (\<lambda>ir. path (snd ir)) (filter (\<lambda>ir. path (snd ir) \<noteq> None) (rows df))
          @ filter (\<lambda>ir. path (snd ir) = None) (rows df)\<rparr>"

text \<open>
  The steps of \<open>build_cmip\<close> after the table is assembled, lines 174 to 185.  The trace
  is passed through.
\<close>

definition finish_cmip ::
  "env \<Rightarrow> event list \<Rightarrow> int \<Rightarrow> bool \<Rightarrow> dataframe \<Rightarrow> event list \<times> (error + dataframe)" where
  "finish_cmip e tr v pick df =
     (let (tr1, filtered) =
            (if v = 6
             then (tr @ [Fetched],
                   case fetch_activity_ids e of
                     Inl err \<Rightarrow> Inl err
                   | Inr activity_ids \<Rightarrow> Inr (filter_activity_id activity_ids df))
             else (tr, Inr df))
      in case filtered of
           Inl err \<Rightarrow> (tr1, Inl err)
         | Inr df1 \<Rightarrow>
             (case (if pick then pick_latest_version df1 else Inr df1) of
                Inl err \<Rightarrow> (tr1, Inl err)
              | Inr df2 \<Rightarrow> (tr1, Inr (sort_values_path df2))))"

text \<open>
  \<open>build_cmip\<close> with \<open>columns\<close> and \<open>exclude_patterns\<close> at their defaults, as \<open>cli\<close> calls
  it.  The traversal comes first, line 167.
\<close>

definition build_cmip ::
  "env \<Rightarrow> event list \<Rightarrow> string option \<Rightarrow> int \<Rightarrow> int \<Rightarrow> bool
     \<Rightarrow> event list \<times> (error + dataframe)" where
  "build_cmip e tr root_path cmip_version depth pick =
     (let tr1 = tr @ [Traversed root_path depth] in
      case get_asset_list e root_path depth of
        Inl err \<Rightarrow> (tr1, Inl err)
      | Inr filelist \<Rightarrow>
          (case cmip_columns cmip_version of
             Inl err \<Rightarrow> (tr1, Inl err)
           | Inr cols \<Rightarrow>
               (case parsers e cmip_version of
                  Inl err \<Rightarrow> (tr1, Inl err)
                | Inr parser \<Rightarrow>
                    finish_cmip e tr1 cmip_version pick
                      (Builder cols (excluded e exclude_patterns) filelist parser))))"

text \<open>
  \<open>cli\<close>: \<open>cmip_version\<close> and \<open>csv_filepath\<close> are \<open>None\<close> when the option is not given.
\<close>

definition cli ::
  "env \<Rightarrow> event list \<Rightarrow> string option \<Rightarrow> int \<Rightarrow> bool \<Rightarrow> int option \<Rightarrow> string option
     \<Rightarrow> event list \<times> (error + unit)" where
  "cli e tr root_path depth pick cmip_version csv_filepath =
     (case cmip_version of
        None \<Rightarrow> (tr, Inl ValueError)
      | Some v \<Rightarrow>
          if v \<notin> {5, 6} then (tr, Inl ValueError)
          else
            (case csv_filepath of
               None \<Rightarrow> (tr, Inl ValueError)
             | Some csv \<Rightarrow>
                 (case build_cmip e tr root_path v depth pick of
                    (tr1, Inl err) \<Rightarrow> (tr1, Inl err)
                  | (tr1, Inr df) \<Rightarrow> (tr1 @ [Written csv df], Inr ()))))"

section \<open>Sample catalogs\<close>

text \<open>
  Files of one dataset that differ in their version directory (and the root they lie
  under) only, as the entries \<open>cmip6_parser\<close> makes of them.  \<open>dcpp_entry\<close> is a file of a
  decadal prediction (member \<open>s1960-r2i1p1f1\<close>), \<open>cmip_entry\<close> a file of another experiment,
  whose \<open>dcpp_init_year\<close> is \<open>NaN\<close>.
\<close>

definition dcpp_path :: "string \<Rightarrow> string \<Rightarrow> string" where
  "dcpp_path base v =
     base @ ''/CMIP6/DCPP/CNRM-CERFACS/CNRM-CM6-1/dcppA-hindcast/s1960-r2i1p1f1/day/pr/gn/'' @ v @
     ''/pr_day_CNRM-CM6-1_dcppA-hindcast_s1960-r2i1p1f1_gn_198001-198412.nc''"

definition dcpp_entry :: "string \<Rightarrow> string \<Rightarrow> attrs" where
  "dcpp_entry base v =
     [(''variable_id'', Str ''pr''), (''table_id'', Str ''day''),
      (''source_id'', Str ''CNRM-CM6-1''), (''experiment_id'', Str ''dcppA-hindcast''),
      (''member_id'', Str ''r2i1p1f1''), (''grid_label'', Str ''gn''),
      (''time_range'', Str ''198001-198412''), (''activity_id'', Str ''DCPP''),
      (''institution_id'', Str ''CNRM-CERFACS''), (''version'', Str v),
      (''path'', Str (dcpp_path base v)), (''dcpp_init_year'', Float (Fin 1960))]"

definition cmip_path :: "string \<Rightarrow> string \<Rightarrow> string" where
  "cmip_path activity v =
     ''/CMIP6/'' @ activity @ ''/NCAR/CESM2/historical/r1i1p1f1/Amon/tas/gn/'' @ v @
     ''/tas_Amon_CESM2_historical_r1i1p1f1_gn_185001-201412.nc''"

definition cmip_entry :: "string \<Rightarrow> string \<Rightarrow> attrs" where
  "cmip_entry activity v =
     [(''variable_id'', Str ''tas''), (''table_id'', Str ''Amon''),
      (''source_id'', Str ''CESM2''), (''experiment_id'', Str ''historical''),
      (''member_id'', Str ''r1i1p1f1''), (''grid_label'', Str ''gn''),
      (''time_range'', Str ''185001-201412''), (''activity_id'', Str activity),
      (''institution_id'', Str ''NCAR''), (''version'', Str v),
      (''path'', Str (cmip_path activity v)), (''dcpp_init_year'', Float NaN)]"

definition catalog_of :: "attrs list \<Rightarrow> dataframe" where
  "catalog_of entries =
     \<lparr>columns = cmip6_columns, rows = zip [0 ..< length entries] (map to_row entries)\<rparr>"

text \<open>The index labels and versions of a table, for reading off a result.\<close>

definition labels_versions :: "dataframe \<Rightarrow> (nat \<times> string option) list" where
  "labels_versions df = map (\<lambda>ir. (fst ir, version (snd ir))) (rows df)"

text \<open>
  A run of the program on a tree with two files, one under an activity that the
  controlled vocabulary does not list.
\<close>

definition sample_env :: env where
  "sample_env =
     \<lparr>get_asset_list =
        (\<lambda>root_path depth. Inr [cmip_path ''TestMIP'' ''v20190308'', cmip_path ''CMIP'' ''v20190308'']),
      excluded = (\<lambda>patterns f. False),
      matcher_of = reverse_filename_format,
      extractor_of = extract_attr_with_regex,
      fetch_activity_ids = Inr [''CMIP'', ''DCPP'', ''ScenarioMIP'']\<rparr>"

section \<open>Properties of the parsers\<close>

lemma version_regex_atoms:
  "version_regex =
     [[Chr CHR ''v'', Digit, Digit, Digit, Digit, Digit, Digit, Digit, Digit],
      [Chr CHR ''v'', Digit]]"
  by (simp add: version_regex_def eval_nat_numeral)

text \<open>The definitions a concrete path is evaluated with.\<close>

lemmas parser_eval = py_split_def startswith_def py_strip_def py_rstrip_def basename_def dirname_def
  getitem_str_def py_index_def step_def cmip6_try_def cmip6_parser_def cmip6_member_def cmip6_version_def
  from_match_def or_default_def extract_attr_with_regex_def version_regex_atoms
  cmip6_filename_template_def cmip6_gridspec_template_def cmip6_templates_def
  cmip6_fileparts_def is_digit_def Let_def cmip6_dirs_found_def

lemma split_from_nonempty: "split_from sep acc s \<noteq> []"
  by (induction sep acc s rule: split_from.induct) auto

lemma py_split_nonempty: "py_split s sep \<noteq> []"
  by (simp add: py_split_def split_from_nonempty)

lemma py_index_first: "xs \<noteq> [] \<Longrightarrow> py_index xs 0 = Inr (hd xs)"
  by (cases xs) (simp_all add: py_index_def)

lemma py_index_last: "xs \<noteq> [] \<Longrightarrow> py_index xs (- 1) = Inr (last xs)"
proof (cases xs rule: rev_cases)
  case Nil
  assume "xs \<noteq> []"
  with Nil show ?thesis by simp
next
  case (snoc ys y)
  have "nat (int (length ys)) = length ys" by simp
  then show ?thesis using snoc
    by (simp add: py_index_def nth_append)
qed

lemma py_index_second:
  "py_index xs 1 = (if 2 \<le> length xs then Inr (xs ! 1) else Inl IndexError)"
  by (auto simp add: py_index_def)

lemma py_index_last_but_one:
  "py_index xs (- 2) = (if 2 \<le> length xs then Inr (xs ! (length xs - 2)) else Inl IndexError)"
proof -
  have n: "nat (int (length xs) - 2) = length xs - 2" by linarith
  show ?thesis
    by (auto simp add: py_index_def n)
qed

lemma map_of_from_match: "map_of (from_match m) k = map_option Str (map_of m k)"
  by (induction m) (auto simp: from_match_def)

lemma getitem_str_from_match:
  "getitem_str (from_match m) k = (case map_of m k of None \<Rightarrow> Inl KeyError | Some s \<Rightarrow> Inr s)"
  by (simp add: getitem_str_def map_of_from_match split: option.splits)

lemma map_of_cmip6_version:
  "map_of (cmip6_version extract parent filepath d) k =
     (if k = ''path'' then Some (Str filepath)
      else if k = ''version'' then Some (Str (or_default (extract parent version_regex None) ''v0''))
      else map_of d k)"
  by (simp add: cmip6_version_def Let_def update_conv')

lemma or_default_nonempty: "d \<noteq> [] \<Longrightarrow> or_default x d \<noteq> []"
  by (simp add: or_default_def split: option.splits)

text \<open>What the last lines of the block leave of a field other than the two they assign.\<close>

lemma cmip6_member_other:
  assumes "k \<noteq> ''dcpp_init_year''" and "k \<noteq> ''member_id''"
  shows "case cmip6_member d of Inl (e, d') \<Rightarrow> map_of d' k = map_of d k
         | Inr d' \<Rightarrow> map_of d' k = map_of d k"
  using assms
  by (simp add: cmip6_member_def step_def Let_def update_conv' split: sum.splits option.splits)

lemma cmip6_member_raises: "cmip6_member d = Inl (e, d') \<Longrightarrow> d' = d"
  by (auto simp add: cmip6_member_def step_def Let_def py_index_last py_split_nonempty
      split: sum.splits option.splits if_splits)

lemma cmip6_try_found:
  assumes "cmip6_dirs_found rff filepath"
  shows "\<exists>g a i. cmip6_try extract filepath
           (from_match (cmip6_fileparts rff filepath)) =
         cmip6_member (cmip6_version extract (py_strip (dirname filepath) ''/'') filepath
           (cmip6_dirs (from_match (cmip6_fileparts rff filepath)) g a i))"
  using assms
  by (auto simp add: cmip6_dirs_found_def cmip6_try_def cmip6_dirs_def Let_def step_def
      getitem_str_from_match py_index_first py_split_nonempty py_index_second py_index_last
      py_index_last_but_one split: option.splits)


lemma cmip5_try_other:
  assumes "k \<noteq> ''institute''" and "k \<noteq> ''product_id''"
  shows "case cmip5_try filepath d of Inl (e, d') \<Rightarrow> map_of d' k = map_of d k
         | Inr d' \<Rightarrow> map_of d' k = map_of d k"
  using assms
  by (simp add: cmip5_try_def step_def Let_def update_conv' split: sum.splits prod.splits)

lemma cmip5_parser_field:
  assumes "k \<noteq> ''institute''" and "k \<noteq> ''product_id''"
  shows "map_of (cmip5_parser rff extract filepath) k =
         map_of (AList.update ''path'' (Str filepath)
           (AList.update ''version'' (Str (or_default (extract filepath version_regex None) ''v0''))
             (AList.update ''modeling_realm'' (opt_val (extract filepath realm_regex None))
               (AList.update ''frequency'' (opt_val (extract filepath freq_regex (Some ''/'')))
                 (from_match (rff (basename filepath)
                    [cmip5_filename_template, cmip5_gridspec_template])))))) k"
    (is "_ = map_of ?d k")
  using cmip5_try_other [OF assms, where filepath = filepath and d = ?d]
  by (simp add: cmip5_parser_def Let_def split: sum.splits prod.splits)

lemma cmip6_parser_found_field:
  assumes "cmip6_dirs_found rff filepath" and "k = ''path'' \<or> k = ''version''"
  shows "map_of (cmip6_parser rff extract filepath) k =
         (if k = ''path'' then Some (Str filepath)
          else Some (Str (or_default (extract (py_strip (dirname filepath) ''/'') version_regex None) ''v0'')))"
proof -
  let ?m = "from_match (cmip6_fileparts rff filepath)"
  let ?parent = "py_strip (dirname filepath) ''/''"
  obtain g a i where t: "cmip6_try extract filepath ?m =
      cmip6_member (cmip6_version extract ?parent filepath (cmip6_dirs ?m g a i))"
    using cmip6_try_found [OF assms(1)] by blast
  have k: "k \<noteq> ''dcpp_init_year''" "k \<noteq> ''member_id''" using assms(2) by auto
  show ?thesis
    using cmip6_member_other [OF k, where d = "cmip6_version extract ?parent filepath (cmip6_dirs ?m g a i)"] assms(2)
    by (auto simp add: cmip6_parser_def Let_def t map_of_cmip6_version split: sum.splits prod.splits)
qed

text \<open>When lines 42 to 47 raise, the block stops before the second assignment.\<close>

lemma cmip6_try_not_found:
  assumes "\<not> cmip6_dirs_found rff filepath"
  shows "\<exists>e d. cmip6_try extract filepath (from_match (cmip6_fileparts rff filepath)) = Inl (e, d) \<and>
           (d = from_match (cmip6_fileparts rff filepath) \<or>
            (\<exists>g. d = AList.update ''grid_label'' (Str g) (from_match (cmip6_fileparts rff filepath))))"
  using assms
  by (auto simp add: cmip6_dirs_found_def cmip6_try_def Let_def step_def
      getitem_str_from_match py_index_first py_split_nonempty py_index_second
      py_index_last_but_one split: option.splits)

lemma cmip6_parser_not_found_field:
  assumes "\<not> cmip6_dirs_found rff filepath" and "k \<noteq> ''grid_label''"
  shows "map_of (cmip6_parser rff extract filepath) k =
         map_option Str (map_of (cmip6_fileparts rff filepath) k)"
proof -
  from cmip6_try_not_found [OF assms(1)] obtain e d where
    t: "cmip6_try extract filepath (from_match (cmip6_fileparts rff filepath)) = Inl (e, d)" and
    d: "d = from_match (cmip6_fileparts rff filepath) \<or>
        (\<exists>g. d = AList.update ''grid_label'' (Str g) (from_match (cmip6_fileparts rff filepath)))"
    by blast
  have "map_of d k = map_option Str (map_of (cmip6_fileparts rff filepath) k)"
    using d assms(2) by (auto simp add: map_of_from_match update_conv')
  then show ?thesis by (simp add: cmip6_parser_def t)
qed

text \<open>
  Claim C1, as the code has it.  The mapping \<open>cmip5_parser\<close> returns always holds \<open>path\<close>,
  equal to the input, and \<open>version\<close>, \<open>v0\<close> when the search finds nothing.  The mapping
  \<open>cmip6_parser\<close> returns holds both when lines 42 to 47 raise nothing; it assigns them
  inside the \<open>try\<close> block, after those lines, and when they raise the two fields are as
  the matcher left them.
\<close>

theorem parsers_path_version:
  "map_of (cmip5_parser rff extract filepath) ''path'' = Some (Str filepath) \<and>
   map_of (cmip5_parser rff extract filepath) ''version'' =
     Some (Str (or_default (extract filepath version_regex None) ''v0'')) \<and>
   or_default (extract filepath version_regex None) ''v0'' \<noteq> [] \<and>
   (if cmip6_dirs_found rff filepath
    then map_of (cmip6_parser rff extract filepath) ''path'' = Some (Str filepath) \<and>
         (\<exists>v. v \<noteq> [] \<and> map_of (cmip6_parser rff extract filepath) ''version'' = Some (Str v))
    else map_of (cmip6_parser rff extract filepath) ''path'' =
           map_option Str (map_of (cmip6_fileparts rff filepath) ''path'') \<and>
         map_of (cmip6_parser rff extract filepath) ''version'' =
           map_option Str (map_of (cmip6_fileparts rff filepath) ''version''))"
proof -
  have p5: "map_of (cmip5_parser rff extract filepath) ''path'' = Some (Str filepath)"
    by (simp add: cmip5_parser_field update_conv')
  have v5: "map_of (cmip5_parser rff extract filepath) ''version'' =
     Some (Str (or_default (extract filepath version_regex None) ''v0''))"
    by (simp add: cmip5_parser_field update_conv')
  have n: "or_default x ''v0'' \<noteq> []" for x
    by (rule or_default_nonempty) simp
  have c6: "map_of (cmip6_parser rff extract filepath) ''path'' = Some (Str filepath) \<and>
      (\<exists>v. v \<noteq> [] \<and> map_of (cmip6_parser rff extract filepath) ''version'' = Some (Str v))"
    if f: "cmip6_dirs_found rff filepath"
    using cmip6_parser_found_field [OF f, of "''path''" "extract"]
      cmip6_parser_found_field [OF f, of "''version''" "extract"] n
    by simp
  have n6: "map_of (cmip6_parser rff extract filepath) ''path'' =
           map_option Str (map_of (cmip6_fileparts rff filepath) ''path'') \<and>
         map_of (cmip6_parser rff extract filepath) ''version'' =
           map_option Str (map_of (cmip6_fileparts rff filepath) ''version'')"
    if f: "\<not> cmip6_dirs_found rff filepath"
    using cmip6_parser_not_found_field [OF f, of "''path''" "extract"]
      cmip6_parser_not_found_field [OF f, of "''version''" "extract"]
    by simp
  show ?thesis
  proof (cases "cmip6_dirs_found rff filepath")
    case True
    with p5 v5 n c6 show ?thesis by simp
  next
    case False
    with p5 v5 n n6 show ?thesis by simp
  qed
qed

theorem parsers_path_version_witness:
  "cmip6_dirs_found reverse_filename_format
     ''/CMIP6/ScenarioMIP/NOAA/GFDL-CM4/ssp585/r1i1p1f1/Amon/tas/gn/v20180701/tas_Amon_GFDL-CM4_ssp585_r1i1p1f1_gn_201501-210012.nc'' \<and>
   map_of (cmip6_parser reverse_filename_format extract_attr_with_regex
     ''/CMIP6/ScenarioMIP/NOAA/GFDL-CM4/ssp585/r1i1p1f1/Amon/tas/gn/v20180701/tas_Amon_GFDL-CM4_ssp585_r1i1p1f1_gn_201501-210012.nc'') ''path'' =
   Some (Str ''/CMIP6/ScenarioMIP/NOAA/GFDL-CM4/ssp585/r1i1p1f1/Amon/tas/gn/v20180701/tas_Amon_GFDL-CM4_ssp585_r1i1p1f1_gn_201501-210012.nc'')"
proof -
  have f: "cmip6_dirs_found reverse_filename_format
     ''/CMIP6/ScenarioMIP/NOAA/GFDL-CM4/ssp585/r1i1p1f1/Amon/tas/gn/v20180701/tas_Amon_GFDL-CM4_ssp585_r1i1p1f1_gn_201501-210012.nc''"
    by (simp add: parser_eval)
  show ?thesis
    using f parsers_path_version [of reverse_filename_format extract_attr_with_regex
     "''/CMIP6/ScenarioMIP/NOAA/GFDL-CM4/ssp585/r1i1p1f1/Amon/tas/gn/v20180701/tas_Amon_GFDL-CM4_ssp585_r1i1p1f1_gn_201501-210012.nc''"]
    by simp
qed

theorem cmip6_parser_no_path_counterexample:
  "map_of (cmip6_parser reverse_filename_format extract_attr_with_regex
     ''/data/misc/tas_Amon_GFDL-CM4_ssp585_r1i1p1f1_gn_201501-210012.nc'') ''path'' = None \<and>
   map_of (cmip6_parser reverse_filename_format extract_attr_with_regex
     ''/data/misc/tas_Amon_GFDL-CM4_ssp585_r1i1p1f1_gn_201501-210012.nc'') ''version'' = None"
  by (simp add: parser_eval)

lemma dom_from_match: "dom (map_of (from_match m)) = dom (map_of m)"
  by (auto simp add: map_of_from_match dom_def)

lemma dom_update: "dom (map_of (AList.update k v d)) = insert k (dom (map_of d))"
  by (simp add: update_conv')

lemma dom_cmip6_version:
  "dom (map_of (cmip6_version extract parent filepath d)) =
     insert ''path'' (insert ''version'' (dom (map_of d)))"
  by (simp add: cmip6_version_def Let_def dom_update)

lemma dom_cmip6_dirs:
  "dom (map_of (cmip6_dirs d g a i)) =
     insert ''institution_id'' (insert ''activity_id'' (insert ''grid_label'' (dom (map_of d))))"
  by (simp add: cmip6_dirs_def dom_update)

lemma map_of_cmip6_dirs:
  "map_of (cmip6_dirs d g a i) k =
     (if k = ''institution_id'' then Some (Str i)
      else if k = ''activity_id'' then Some (Str a)
      else if k = ''grid_label'' then Some (Str g)
      else map_of d k)"
  by (simp add: cmip6_dirs_def update_conv')

text \<open>Where the block can stop: before any assignment, after the first, or after the fifth.\<close>

lemma cmip6_try_raises:
  assumes "cmip6_try extract filepath d0 = Inl (e, d)"
  shows "d = d0 \<or> (\<exists>g. d = AList.update ''grid_label'' (Str g) d0) \<or>
         (\<exists>g a i. d = cmip6_version extract (py_strip (dirname filepath) ''/'') filepath
                        (cmip6_dirs d0 g a i))"
proof -
  from assms consider
      (start) "d = d0"
    | (grid) g where "d = AList.update ''grid_label'' (Str g) d0"
    | (member) g a i where
        "cmip6_member (cmip6_version extract (py_strip (dirname filepath) ''/'') filepath
           (cmip6_dirs d0 g a i)) = Inl (e, d)"
    by (auto simp add: cmip6_try_def step_def Let_def cmip6_dirs_def
        py_index_last py_split_nonempty split: sum.splits)
  then show ?thesis
  proof cases
    case start
    then show ?thesis by simp
  next
    case grid
    then show ?thesis by blast
  next
    case member
    from cmip6_member_raises [OF member] show ?thesis by blast
  qed
qed

text \<open>
  Claim C5.  When a statement of the \<open>try\<close> block raises, \<open>cmip6_parser\<close> returns the dict
  as that statement found it.  Every field the matcher bound is in it; a field the block
  assigns is in it only if its assignment came before (or the matcher bound it);
  \<open>dcpp_init_year\<close> is never among them.
\<close>

theorem cmip6_parser_keeps_partial:
  assumes "cmip6_try extract filepath (from_match (cmip6_fileparts rff filepath)) = Inl (e, d)"
  shows "cmip6_parser rff extract filepath = d \<and>
         dom (map_of (cmip6_fileparts rff filepath)) \<subseteq> dom (map_of d) \<and>
         (\<forall>k. k \<notin> set [''grid_label'', ''activity_id'', ''institution_id'', ''version'', ''path'']
              \<longrightarrow> map_of d k = map_option Str (map_of (cmip6_fileparts rff filepath) k)) \<and>
         (\<exists>n \<le> 5. dom (map_of d) =
              dom (map_of (cmip6_fileparts rff filepath)) \<union>
              set (take n [''grid_label'', ''activity_id'', ''institution_id'', ''version'', ''path'']))"
proof -
  let ?m = "cmip6_fileparts rff filepath"
  let ?ks = "[''grid_label'', ''activity_id'', ''institution_id'', ''version'', ''path'']"
  have ret: "cmip6_parser rff extract filepath = d"
    using assms by (simp add: cmip6_parser_def)
  from cmip6_try_raises [OF assms] consider
      (start) "d = from_match ?m"
    | (grid) g where "d = AList.update ''grid_label'' (Str g) (from_match ?m)"
    | (member) g a i where
        "d = cmip6_version extract (py_strip (dirname filepath) ''/'') filepath
               (cmip6_dirs (from_match ?m) g a i)"
    by blast
  then have rest: "(\<forall>k. k \<notin> set ?ks \<longrightarrow> map_of d k = map_option Str (map_of ?m k)) \<and>
      (\<exists>n \<le> 5. dom (map_of d) = dom (map_of ?m) \<union> set (take n ?ks))"
  proof cases
    case start
    have "dom (map_of d) = dom (map_of ?m) \<union> set (take 0 ?ks)"
      by (simp add: start dom_from_match)
    then show ?thesis
      using start map_of_from_match by (metis le0)
  next
    case grid
    have "dom (map_of d) = dom (map_of ?m) \<union> set (take 1 ?ks)"
      by (simp add: grid dom_update dom_from_match)
    moreover have "\<forall>k. k \<notin> set ?ks \<longrightarrow> map_of d k = map_option Str (map_of ?m k)"
      by (simp add: grid update_conv' map_of_from_match)
    moreover have "(1::nat) \<le> 5" by simp
    ultimately show ?thesis by blast
  next
    case member
    have "dom (map_of d) = dom (map_of ?m) \<union> set (take 5 ?ks)"
      by (auto simp add: member dom_cmip6_version dom_cmip6_dirs dom_from_match)
    moreover have "\<forall>k. k \<notin> set ?ks \<longrightarrow> map_of d k = map_option Str (map_of ?m k)"
      by (simp add: member map_of_cmip6_version map_of_cmip6_dirs map_of_from_match)
    moreover have "(5::nat) \<le> 5" by simp
    ultimately show ?thesis by blast
  qed
  then have "dom (map_of ?m) \<subseteq> dom (map_of d)" by blast
  with ret rest show ?thesis by blast
qed

theorem cmip6_parser_keeps_partial_witness:
  "cmip6_try extract_attr_with_regex
     ''/data/misc/tas_Amon_GFDL-CM4_ssp585_r1i1p1f1_gn_201501-210012.nc''
     (from_match (cmip6_fileparts reverse_filename_format
        ''/data/misc/tas_Amon_GFDL-CM4_ssp585_r1i1p1f1_gn_201501-210012.nc'')) =
   Inl (IndexError,
     [(''variable_id'', Str ''tas''), (''table_id'', Str ''Amon''),
      (''source_id'', Str ''GFDL-CM4''), (''experiment_id'', Str ''ssp585''),
      (''member_id'', Str ''r1i1p1f1''), (''grid_label'', Str ''gn''),
      (''time_range'', Str ''201501-210012'')]) \<and>
   cmip6_parser reverse_filename_format extract_attr_with_regex
     ''/data/misc/tas_Amon_GFDL-CM4_ssp585_r1i1p1f1_gn_201501-210012.nc'' =
     [(''variable_id'', Str ''tas''), (''table_id'', Str ''Amon''),
      (''source_id'', Str ''GFDL-CM4''), (''experiment_id'', Str ''ssp585''),
      (''member_id'', Str ''r1i1p1f1''), (''grid_label'', Str ''gn''),
      (''time_range'', Str ''201501-210012'')]"
proof -
  have r: "cmip6_try extract_attr_with_regex
     ''/data/misc/tas_Amon_GFDL-CM4_ssp585_r1i1p1f1_gn_201501-210012.nc''
     (from_match (cmip6_fileparts reverse_filename_format
        ''/data/misc/tas_Amon_GFDL-CM4_ssp585_r1i1p1f1_gn_201501-210012.nc'')) =
   Inl (IndexError,
     [(''variable_id'', Str ''tas''), (''table_id'', Str ''Amon''),
      (''source_id'', Str ''GFDL-CM4''), (''experiment_id'', Str ''ssp585''),
      (''member_id'', Str ''r1i1p1f1''), (''grid_label'', Str ''gn''),
      (''time_range'', Str ''201501-210012'')])"
    by (simp add: parser_eval)
  from cmip6_parser_keeps_partial [OF r] r show ?thesis by blast
qed

text \<open>
  Claim C6.  The example path of the spec, evaluated: the eleven fields of the claim, and
  \<open>path\<close>.  In the second path the file name says \<open>gr\<close> and the directory below \<open>tas\<close> is
  \<open>gn\<close>: the directory wins.
\<close>

theorem cmip6_parser_example:
  "cmip6_parser reverse_filename_format extract_attr_with_regex
     ''.../CMIP6/ScenarioMIP/NOAA/GFDL-CM4/ssp585/r1i1p1f1/Amon/tas/gn/v20180701/tas_Amon_GFDL-CM4_ssp585_r1i1p1f1_gn_201501-210012.nc'' =
     [(''variable_id'', Str ''tas''), (''table_id'', Str ''Amon''),
      (''source_id'', Str ''GFDL-CM4''), (''experiment_id'', Str ''ssp585''),
      (''member_id'', Str ''r1i1p1f1''), (''grid_label'', Str ''gn''),
      (''time_range'', Str ''201501-210012''), (''activity_id'', Str ''ScenarioMIP''),
      (''institution_id'', Str ''NOAA''), (''version'', Str ''v20180701''),
      (''path'', Str ''.../CMIP6/ScenarioMIP/NOAA/GFDL-CM4/ssp585/r1i1p1f1/Amon/tas/gn/v20180701/tas_Amon_GFDL-CM4_ssp585_r1i1p1f1_gn_201501-210012.nc''),
      (''dcpp_init_year'', Float NaN)] \<and>
   map_of (cmip6_parser reverse_filename_format extract_attr_with_regex
     ''.../CMIP6/ScenarioMIP/NOAA/GFDL-CM4/ssp585/r1i1p1f1/Amon/tas/gn/v20180701/tas_Amon_GFDL-CM4_ssp585_r1i1p1f1_gr_201501-210012.nc'')
     ''grid_label'' = Some (Str ''gn'')"
  by (simp add: parser_eval)






text \<open>
  Claim C3, as the code has it.  When lines 42 to 47 raise nothing, \<open>version\<close> is what the
  search for \<open>version_regex\<close> finds in \<open>parent\<close>, the directory part of the path without
  its outer slashes, and \<open>v0\<close> when it finds nothing; the file name is not searched.  When
  they raise, \<open>version\<close> is as the matcher left it.
\<close>

theorem cmip6_parser_version:
  "map_of (cmip6_parser rff extract filepath) ''version'' =
     (if cmip6_dirs_found rff filepath
      then Some (Str (or_default (extract (py_strip (dirname filepath) ''/'') version_regex None) ''v0''))
      else map_option Str (map_of (cmip6_fileparts rff filepath) ''version''))"
proof (cases "cmip6_dirs_found rff filepath")
  case True
  from cmip6_parser_found_field [OF True, of "''version''" "extract"] True show ?thesis by simp
next
  case False
  from cmip6_parser_not_found_field [OF False, of "''version''" "extract"] False
  show ?thesis by simp
qed

theorem cmip6_parser_version_witness:
  "cmip6_dirs_found reverse_filename_format
     ''/CMIP6/CMIP/NCAR/CESM2/historical/r1i1p1f1/Amon/tas/gn/v20190308/tas_Amon_CESM2_historical_r1i1p1f1_gn_185001-201412.nc'' \<and>
   py_strip (dirname
     ''/CMIP6/CMIP/NCAR/CESM2/historical/r1i1p1f1/Amon/tas/gn/v20190308/tas_Amon_CESM2_historical_r1i1p1f1_gn_185001-201412.nc'') ''/'' =
     ''CMIP6/CMIP/NCAR/CESM2/historical/r1i1p1f1/Amon/tas/gn/v20190308'' \<and>
   map_of (cmip6_parser reverse_filename_format extract_attr_with_regex
     ''/CMIP6/CMIP/NCAR/CESM2/historical/r1i1p1f1/Amon/tas/gn/v20190308/tas_Amon_CESM2_historical_r1i1p1f1_gn_185001-201412.nc'')
     ''version'' = Some (Str ''v20190308'')"
proof -
  let ?p = "''/CMIP6/CMIP/NCAR/CESM2/historical/r1i1p1f1/Amon/tas/gn/v20190308/tas_Amon_CESM2_historical_r1i1p1f1_gn_185001-201412.nc''"
  have f: "cmip6_dirs_found reverse_filename_format ?p"
    by (simp add: parser_eval)
  have d: "py_strip (dirname ?p) ''/'' = ''CMIP6/CMIP/NCAR/CESM2/historical/r1i1p1f1/Amon/tas/gn/v20190308''"
    by (simp add: py_strip_def py_rstrip_def dirname_def)
  have v: "or_default (extract_attr_with_regex
      ''CMIP6/CMIP/NCAR/CESM2/historical/r1i1p1f1/Amon/tas/gn/v20190308'' version_regex None) ''v0'' =
      ''v20190308''"
    by (simp add: or_default_def extract_attr_with_regex_def version_regex_atoms is_digit_def)
  from cmip6_parser_version [of reverse_filename_format extract_attr_with_regex ?p] f d v
  show ?thesis by simp
qed

text \<open>
  The claim fails twice: a path outside the directory layout gets no \<open>version\<close> at all,
  and a version token that stands in the file name only is found by a search of the full
  path but not by the parser.
\<close>

theorem cmip6_parser_version_counterexample:
  "map_of (cmip6_parser reverse_filename_format extract_attr_with_regex
     ''/data/misc/tas_Amon_GFDL-CM4_ssp585_r1i1p1f1_gn_201501-210012.nc'') ''version'' = None \<and>
   extract_attr_with_regex
     ''/CMIP6/CMIP/NCAR/CESM2/historical/r1i1p1f1/Amon/tas/gn/tas_Amon_CESM2_historical_r1i1p1f1_gn_v20190308.nc''
     version_regex None = Some ''v20190308'' \<and>
   map_of (cmip6_parser reverse_filename_format extract_attr_with_regex
     ''/CMIP6/CMIP/NCAR/CESM2/historical/r1i1p1f1/Amon/tas/gn/tas_Amon_CESM2_historical_r1i1p1f1_gn_v20190308.nc'')
     ''version'' = Some (Str ''v0'')"
proof -
  have a: "cmip6_parser reverse_filename_format extract_attr_with_regex
     ''/data/misc/tas_Amon_GFDL-CM4_ssp585_r1i1p1f1_gn_201501-210012.nc'' =
     [(''variable_id'', Str ''tas''), (''table_id'', Str ''Amon''),
      (''source_id'', Str ''GFDL-CM4''), (''experiment_id'', Str ''ssp585''),
      (''member_id'', Str ''r1i1p1f1''), (''grid_label'', Str ''gn''),
      (''time_range'', Str ''201501-210012'')]"
    by (simp add: parser_eval)
  have b: "extract_attr_with_regex
     ''/CMIP6/CMIP/NCAR/CESM2/historical/r1i1p1f1/Amon/tas/gn/tas_Amon_CESM2_historical_r1i1p1f1_gn_v20190308.nc''
     version_regex None = Some ''v20190308''"
    by (simp add: extract_attr_with_regex_def version_regex_atoms is_digit_def)
  have c: "cmip6_parser reverse_filename_format extract_attr_with_regex
     ''/CMIP6/CMIP/NCAR/CESM2/historical/r1i1p1f1/Amon/tas/gn/tas_Amon_CESM2_historical_r1i1p1f1_gn_v20190308.nc'' =
     [(''variable_id'', Str ''tas''), (''table_id'', Str ''Amon''),
      (''source_id'', Str ''CESM2''), (''experiment_id'', Str ''historical''),
      (''member_id'', Str ''r1i1p1f1''), (''grid_label'', Str ''gn''),
      (''time_range'', Str ''v20190308''), (''activity_id'', Str ''CMIP''),
      (''institution_id'', Str ''NCAR''), (''version'', Str ''v0''),
      (''path'', Str ''/CMIP6/CMIP/NCAR/CESM2/historical/r1i1p1f1/Amon/tas/gn/tas_Amon_CESM2_historical_r1i1p1f1_gn_v20190308.nc''),
      (''dcpp_init_year'', Float NaN)]"
    by (simp add: parser_eval)
  show ?thesis by (simp add: a b c)
qed

section \<open>Properties of the version selection\<close>

lemma set_sort_values_version_desc [simp]: "set (sort_values_version_desc g) = set g"
  by (simp add: sort_values_version_desc_def)

lemma distinct_sort_values_version_desc [simp]:
  "distinct (sort_values_version_desc g) = distinct g"
  by (simp add: sort_values_version_desc_def)

lemma sorted_le_last:
  fixes xs :: "'a::linorder list"
  shows "sorted xs \<Longrightarrow> x \<in> set xs \<Longrightarrow> x \<le> last xs"
  by (induction xs) (auto split: if_splits)

lemma hd_sort_values_version_desc:
  assumes "ir \<in> set g"
  shows "version (snd ir) \<le> version (snd (hd (sort_values_version_desc g)))"
proof -
  let ?f = "\<lambda>ir. version (snd ir)"
  let ?t = "sort_key ?f (rev g)"
  have ne: "?t \<noteq> []" using assms by (metis empty_iff list.set(1) set_rev set_sort)
  have "sorted (map ?f ?t)" by simp
  moreover have "?f ir \<in> set (map ?f ?t)" using assms by simp
  ultimately have "?f ir \<le> last (map ?f ?t)" by (rule sorted_le_last)
  also have "last (map ?f ?t) = ?f (last ?t)" using ne by (simp add: last_map)
  finally show ?thesis by (simp add: sort_values_version_desc_def hd_rev)
qed

lemma pick_latest_v_subset: "set (pick_latest_v g) \<subseteq> fst ` set g"
proof -
  have "set (drop 1 (sort_values_version_desc g)) \<subseteq> set g"
    using set_drop_subset [of 1 "sort_values_version_desc g"] by simp
  then show ?thesis by (auto simp add: pick_latest_v_def)
qed

lemma set_map_filter_Some: "set (List.map_filter f xs) = {y. \<exists>x \<in> set xs. f x = Some y}"
  by (induction xs) (auto simp add: map_filter_simps split: option.splits)

lemma set_groupby:
  "set (groupby cols rs) =
     (\<lambda>k. filter (\<lambda>ir. group_key cols (snd ir) = Some k) rs) `
       {k. \<exists>ir \<in> set rs. group_key cols (snd ir) = Some k}"
  by (auto simp add: groupby_def set_map_filter_Some image_iff)

text \<open>A label is marked for removal by the group of one of the rows that carry it.\<close>

lemma idx_to_remove_cases:
  assumes "i \<in> set (concat (map pick_latest_v (groupby cols rs)))"
  obtains k ir where "ir \<in> set rs" and "fst ir = i" and "group_key cols (snd ir) = Some k"
    and "i \<in> set (pick_latest_v (filter (\<lambda>ir. group_key cols (snd ir) = Some k) rs))"
proof -
  from assms obtain g where g: "g \<in> set (groupby cols rs)" and i: "i \<in> set (pick_latest_v g)"
    by auto
  from g obtain k where k: "g = filter (\<lambda>ir. group_key cols (snd ir) = Some k) rs"
    by (auto simp add: set_groupby)
  from i pick_latest_v_subset [of g] obtain ir where ir: "ir \<in> set g" "fst ir = i" by auto
  from ir(1) k have "ir \<in> set rs" and "group_key cols (snd ir) = Some k" by auto
  with ir(2) i k show thesis by (intro that [of ir k]) auto
qed

lemma same_label:
  assumes "distinct (map fst rs)" and "ir \<in> set rs" and "ir' \<in> set rs" and "fst ir = fst ir'"
  shows "ir = ir'"
  using assms by (metis eq_key_imp_eq_value prod.collapse)


lemma removed_in_own_group:
  assumes "distinct (map fst rs)" and "ir \<in> set rs" and "group_key cols (snd ir) = Some k"
  shows "fst ir \<in> set (concat (map pick_latest_v (groupby cols rs))) \<longleftrightarrow>
         fst ir \<in> set (pick_latest_v (filter (\<lambda>ir. group_key cols (snd ir) = Some k) rs))"
proof
  assume "fst ir \<in> set (concat (map pick_latest_v (groupby cols rs)))"
  then obtain k' ir' where a: "ir' \<in> set rs" "fst ir' = fst ir" "group_key cols (snd ir') = Some k'"
    "fst ir \<in> set (pick_latest_v (filter (\<lambda>ir. group_key cols (snd ir) = Some k') rs))"
    by (rule idx_to_remove_cases)
  from same_label [OF assms(1) a(1) assms(2) a(2)] have "ir' = ir" .
  with a(3) assms(3) have "k' = k" by simp
  with a(4) show "fst ir \<in> set (pick_latest_v (filter (\<lambda>ir. group_key cols (snd ir) = Some k) rs))"
    by simp
next
  assume r: "fst ir \<in> set (pick_latest_v (filter (\<lambda>ir. group_key cols (snd ir) = Some k) rs))"
  have "filter (\<lambda>ir. group_key cols (snd ir) = Some k) rs \<in> set (groupby cols rs)"
    using assms(2,3) by (auto simp add: set_groupby)
  with r show "fst ir \<in> set (concat (map pick_latest_v (groupby cols rs)))" by auto
qed

lemma not_removed_without_group:
  assumes "distinct (map fst rs)" and "ir \<in> set rs" and "group_key cols (snd ir) = None"
  shows "fst ir \<notin> set (concat (map pick_latest_v (groupby cols rs)))"
proof
  assume "fst ir \<in> set (concat (map pick_latest_v (groupby cols rs)))"
  then obtain k' ir' where a: "ir' \<in> set rs" "fst ir' = fst ir" "group_key cols (snd ir') = Some k'"
    by (rule idx_to_remove_cases)
  from same_label [OF assms(1) a(1) assms(2) a(2)] have "ir' = ir" .
  with a(3) assms(3) show False by simp
qed

lemma nunique_Nil [simp]: "nunique [] = 0"
  by (simp add: nunique_def)

lemma removed_in_group:
  assumes "distinct (map fst g)" and "ir \<in> set g"
  shows "fst ir \<in> set (pick_latest_v g) \<longleftrightarrow>
         1 < nunique (map (\<lambda>ir. version (snd ir)) g) \<and> ir \<noteq> hd (sort_values_version_desc g)"
proof (cases "1 < nunique (map (\<lambda>ir. version (snd ir)) g)")
  case False
  then show ?thesis by (simp add: pick_latest_v_def)
next
  case True
  let ?s = "sort_values_version_desc g"
  have dg: "distinct g" using assms(1) by (simp add: distinct_map)
  have ne: "?s \<noteq> []" using assms(2) by (metis empty_iff list.set(1) set_sort_values_version_desc)
  then have s: "?s = hd ?s # drop 1 ?s" by (cases ?s) simp_all
  have ds: "distinct ?s" using dg by simp
  have sub: "set (drop 1 ?s) \<subseteq> set g"
    using set_drop_subset [of 1 ?s] by simp
  have "fst ir \<in> fst ` set (drop 1 ?s) \<longleftrightarrow> ir \<in> set (drop 1 ?s)"
  proof
    assume "fst ir \<in> fst ` set (drop 1 ?s)"
    then obtain ir' where a: "ir' \<in> set (drop 1 ?s)" "fst ir' = fst ir" by auto
    with sub have "ir' \<in> set g" by auto
    from same_label [OF assms(1) this assms(2) a(2)] a(1) show "ir \<in> set (drop 1 ?s)" by simp
  qed auto
  also have "\<dots> \<longleftrightarrow> ir \<noteq> hd ?s"
  proof -
    have "ir \<in> set ?s" using assms(2) by simp
    then have "ir = hd ?s \<or> ir \<in> set (drop 1 ?s)" by (subst (asm) s) auto
    moreover have "hd ?s \<notin> set (drop 1 ?s)" using ds by (subst (asm) s) simp
    ultimately show ?thesis by auto
  qed
  finally show ?thesis using True by (simp add: pick_latest_v_def)
qed

lemma filter_eq_singleton:
  "distinct xs \<Longrightarrow> x \<in> set xs \<Longrightarrow> filter (\<lambda>y. y = x) xs = [x]"
  by (induction xs) (auto simp add: filter_empty_conv)

text \<open>What the selection leaves of one group.\<close>

lemma survivors_of_group:
  fixes rs :: "(nat \<times> row) list" and cols :: "string list" and k :: "pyval list"
  assumes d: "distinct (map fst rs)"
  defines "idx \<equiv> concat (map pick_latest_v (groupby cols rs))"
  defines "g \<equiv> filter (\<lambda>ir. group_key cols (snd ir) = Some k) rs"
  shows "filter (\<lambda>ir. group_key cols (snd ir) = Some k) (filter (\<lambda>ir. fst ir \<notin> set idx) rs) =
         (if 1 < nunique (map (\<lambda>ir. version (snd ir)) g)
          then [hd (sort_values_version_desc g)] else g)"
proof -
  have dg: "distinct (map fst g)" unfolding g_def using d by (rule distinct_map_filter)
  then have dg': "distinct g" by (simp add: distinct_map)
  have keep: "fst ir \<notin> set idx \<longleftrightarrow>
      \<not> (1 < nunique (map (\<lambda>ir. version (snd ir)) g) \<and> ir \<noteq> hd (sort_values_version_desc g))"
    if "ir \<in> set g" for ir
  proof -
    from that have a: "ir \<in> set rs" "group_key cols (snd ir) = Some k" by (auto simp add: g_def)
    show ?thesis
      unfolding idx_def removed_in_own_group [OF d a]
      using removed_in_group [OF dg that] by (simp add: g_def)
  qed
  have "filter (\<lambda>ir. group_key cols (snd ir) = Some k) (filter (\<lambda>ir. fst ir \<notin> set idx) rs) =
        filter (\<lambda>ir. fst ir \<notin> set idx) g"
    by (simp add: g_def conj_commute)
  also have "\<dots> = filter (\<lambda>ir. \<not> (1 < nunique (map (\<lambda>ir. version (snd ir)) g) \<and>
      ir \<noteq> hd (sort_values_version_desc g))) g"
    using keep by (intro filter_cong) auto
  also have "\<dots> = (if 1 < nunique (map (\<lambda>ir. version (snd ir)) g)
          then [hd (sort_values_version_desc g)] else g)"
  proof (cases "1 < nunique (map (\<lambda>ir. version (snd ir)) g)")
    case True
    then have "g \<noteq> []" by auto
    then have "hd (sort_values_version_desc g) \<in> set g"
      by (metis hd_in_set set_sort_values_version_desc set_empty)
    with True dg' show ?thesis by (simp add: filter_eq_singleton)
  next
    case False
    then show ?thesis by simp
  qed
  finally show ?thesis .
qed


lemma pick_latest_version_rows:
  assumes "grpby_cols df \<noteq> []"
  shows "pick_latest_version df =
     Inr (df\<lparr>rows := filter (\<lambda>ir. fst ir \<notin>
            set (concat (map pick_latest_v (groupby (grpby_cols df) (rows df))))) (rows df)\<rparr>)"
  using assms by (simp add: pick_latest_version_def Let_def)

lemma grpby_cols_cmip6_columns:
  "columns df = cmip6_columns \<Longrightarrow> grpby_cols df =
     [''activity_id'', ''institution_id'', ''source_id'', ''experiment_id'', ''member_id'',
      ''table_id'', ''variable_id'', ''grid_label'', ''dcpp_init_year'', ''time_range'']"
  by (simp add: grpby_cols_def cmip6_columns_def)

lemma grpby_cols_catalog_of:
  "grpby_cols (catalog_of es) =
     [''activity_id'', ''institution_id'', ''source_id'', ''experiment_id'', ''member_id'',
      ''table_id'', ''variable_id'', ''grid_label'', ''dcpp_init_year'', ''time_range'']"
  by (rule grpby_cols_cmip6_columns) (simp add: catalog_of_def)

lemma rows_catalog_of_2: "rows (catalog_of [a, b]) = [(0, to_row a), (1, to_row b)]"
  by (simp add: catalog_of_def upt_rec)

text \<open>The definitions a concrete table is evaluated with.\<close>

lemmas catalog_eval = pick_latest_version_def groupby_def group_key_def isna_def
  nunique_def pick_latest_v_def sort_values_version_desc_def labels_versions_def
  to_row_def str_cell_def dcpp_entry_def cmip_entry_def Let_def

text \<open>
  Claim C2, as the code has it.  In a table with distinct index labels, take the rows of
  one group: no missing value in a grouping column, and the same values there.  If the
  group has more than one distinct version, one row of it survives, and no row of the
  group has a greater version; otherwise the whole group survives.
\<close>

theorem pick_latest_version_groups:
  assumes "distinct (map fst (rows df))" and "grpby_cols df \<noteq> []"
  shows "\<exists>df'. pick_latest_version df = Inr df' \<and>
     (\<forall>k. if 1 < nunique (map (\<lambda>ir. version (snd ir))
                     (filter (\<lambda>ir. group_key (grpby_cols df) (snd ir) = Some k) (rows df)))
          then \<exists>top \<in> set (filter (\<lambda>ir. group_key (grpby_cols df) (snd ir) = Some k) (rows df)).
                 filter (\<lambda>ir. group_key (grpby_cols df) (snd ir) = Some k) (rows df') = [top] \<and>
                 (\<forall>ir \<in> set (filter (\<lambda>ir. group_key (grpby_cols df) (snd ir) = Some k) (rows df)).
                     version (snd ir) \<le> version (snd top))
          else filter (\<lambda>ir. group_key (grpby_cols df) (snd ir) = Some k) (rows df') =
               filter (\<lambda>ir. group_key (grpby_cols df) (snd ir) = Some k) (rows df))"
proof -
  let ?cols = "grpby_cols df"
  let ?idx = "concat (map pick_latest_v (groupby ?cols (rows df)))"
  let ?df' = "df\<lparr>rows := filter (\<lambda>ir. fst ir \<notin> set ?idx) (rows df)\<rparr>"
  let ?g = "\<lambda>k. filter (\<lambda>ir. group_key ?cols (snd ir) = Some k) (rows df)"
  have r: "pick_latest_version df = Inr ?df'"
    by (rule pick_latest_version_rows [OF assms(2)])
  have "if 1 < nunique (map (\<lambda>ir. version (snd ir)) (?g k))
          then \<exists>top \<in> set (?g k).
                 filter (\<lambda>ir. group_key ?cols (snd ir) = Some k) (rows ?df') = [top] \<and>
                 (\<forall>ir \<in> set (?g k). version (snd ir) \<le> version (snd top))
          else filter (\<lambda>ir. group_key ?cols (snd ir) = Some k) (rows ?df') = ?g k" for k
  proof (cases "1 < nunique (map (\<lambda>ir. version (snd ir)) (?g k))")
    case True
    let ?top = "hd (sort_values_version_desc (?g k))"
    from True have "?g k \<noteq> []" by auto
    then have t: "?top \<in> set (?g k)"
      by (metis hd_in_set set_sort_values_version_desc set_empty)
    have "filter (\<lambda>ir. group_key ?cols (snd ir) = Some k) (rows ?df') = [?top]"
      using survivors_of_group [OF assms(1), of ?cols k] True by simp
    moreover have "\<forall>ir \<in> set (?g k). version (snd ir) \<le> version (snd ?top)"
      using hd_sort_values_version_desc by blast
    ultimately show ?thesis using True t by auto
  next
    case False
    then show ?thesis
      using survivors_of_group [OF assms(1), of ?cols k] by simp
  qed
  with r show ?thesis by blast
qed

theorem pick_latest_version_groups_witness:
  "distinct (map fst (rows (catalog_of [dcpp_entry ''/data'' ''v20190101'', dcpp_entry ''/data'' ''v20200101'']))) \<and>
   grpby_cols (catalog_of [dcpp_entry ''/data'' ''v20190101'', dcpp_entry ''/data'' ''v20200101'']) \<noteq> [] \<and>
   map_sum id labels_versions
     (pick_latest_version (catalog_of [dcpp_entry ''/data'' ''v20190101'', dcpp_entry ''/data'' ''v20200101''])) =
     Inr [(1, Some ''v20200101'')] \<and>
   (\<exists>df' top.
      pick_latest_version (catalog_of [dcpp_entry ''/data'' ''v20190101'', dcpp_entry ''/data'' ''v20200101'']) = Inr df' \<and>
      filter (\<lambda>ir. group_key (grpby_cols (catalog_of [dcpp_entry ''/data'' ''v20190101'', dcpp_entry ''/data'' ''v20200101''])) (snd ir) =
          Some [Str ''DCPP'', Str ''CNRM-CERFACS'', Str ''CNRM-CM6-1'', Str ''dcppA-hindcast'',
                Str ''r2i1p1f1'', Str ''day'', Str ''pr'', Str ''gn'', Float (Fin 1960), Str ''198001-198412''])
        (rows df') = [top] \<and>
      Some ''v20190101'' \<le> version (snd top) \<and> Some ''v20200101'' \<le> version (snd top))"
proof -
  let ?x = "catalog_of [dcpp_entry ''/data'' ''v20190101'', dcpp_entry ''/data'' ''v20200101'']"
  let ?k = "[Str ''DCPP'', Str ''CNRM-CERFACS'', Str ''CNRM-CM6-1'', Str ''dcppA-hindcast'',
     Str ''r2i1p1f1'', Str ''day'', Str ''pr'', Str ''gn'', Float (Fin 1960), Str ''198001-198412'']"
  let ?g = "filter (\<lambda>ir. group_key (grpby_cols ?x) (snd ir) = Some ?k) (rows ?x)"
  have d: "distinct (map fst (rows ?x))" by (simp add: rows_catalog_of_2)
  have n: "grpby_cols ?x \<noteq> []" by (simp add: grpby_cols_catalog_of)
  have r: "map_sum id labels_versions (pick_latest_version ?x) = Inr [(1, Some ''v20200101'')]"
    by (simp add: grpby_cols_catalog_of rows_catalog_of_2 catalog_eval)
  have g: "?g = [(0, to_row (dcpp_entry ''/data'' ''v20190101'')),
                 (1, to_row (dcpp_entry ''/data'' ''v20200101''))]"
    by (simp add: grpby_cols_catalog_of rows_catalog_of_2 group_key_def isna_def to_row_def
        dcpp_entry_def Let_def)
  have u: "1 < nunique (map (\<lambda>ir. version (snd ir)) ?g)"
    unfolding g by (simp add: nunique_def to_row_def str_cell_def dcpp_entry_def)
  from pick_latest_version_groups [OF d n] obtain df' where
    p: "pick_latest_version ?x = Inr df'" and
    a: "\<forall>k. if 1 < nunique (map (\<lambda>ir. version (snd ir))
                     (filter (\<lambda>ir. group_key (grpby_cols ?x) (snd ir) = Some k) (rows ?x)))
          then \<exists>top \<in> set (filter (\<lambda>ir. group_key (grpby_cols ?x) (snd ir) = Some k) (rows ?x)).
                 filter (\<lambda>ir. group_key (grpby_cols ?x) (snd ir) = Some k) (rows df') = [top] \<and>
                 (\<forall>ir \<in> set (filter (\<lambda>ir. group_key (grpby_cols ?x) (snd ir) = Some k) (rows ?x)).
                     version (snd ir) \<le> version (snd top))
          else filter (\<lambda>ir. group_key (grpby_cols ?x) (snd ir) = Some k) (rows df') =
               filter (\<lambda>ir. group_key (grpby_cols ?x) (snd ir) = Some k) (rows ?x)"
    by blast
  from a have "if 1 < nunique (map (\<lambda>ir. version (snd ir)) ?g)
      then \<exists>top \<in> set ?g.
             filter (\<lambda>ir. group_key (grpby_cols ?x) (snd ir) = Some ?k) (rows df') = [top] \<and>
             (\<forall>ir \<in> set ?g. version (snd ir) \<le> version (snd top))
      else filter (\<lambda>ir. group_key (grpby_cols ?x) (snd ir) = Some ?k) (rows df') = ?g"
    by (rule spec)
  with u obtain top where
    t: "filter (\<lambda>ir. group_key (grpby_cols ?x) (snd ir) = Some ?k) (rows df') = [top]" and
    m: "\<forall>ir \<in> set ?g. version (snd ir) \<le> version (snd top)"
    by (simp only: if_True) blast
  have v0: "version (snd (0::nat, to_row (dcpp_entry ''/data'' ''v20190101''))) = Some ''v20190101''"
    by (simp add: to_row_def str_cell_def dcpp_entry_def)
  have v1: "version (snd (1::nat, to_row (dcpp_entry ''/data'' ''v20200101''))) = Some ''v20200101''"
    by (simp add: to_row_def str_cell_def dcpp_entry_def)
  from m have "version (snd (0::nat, to_row (dcpp_entry ''/data'' ''v20190101''))) \<le> version (snd top)"
    and "version (snd (1::nat, to_row (dcpp_entry ''/data'' ''v20200101''))) \<le> version (snd top)"
    unfolding g by (simp_all only: list.set ball_simps insert_iff HOL.simp_thms)
  then have "Some ''v20190101'' \<le> version (snd top)" and "Some ''v20200101'' \<le> version (snd top)"
    unfolding v0 v1 by blast+
  with d n r p t show ?thesis by blast
qed

text \<open>
  Two rows of one group with the same version, under two roots: both survive, so the
  group keeps two rows where the claim allows one.
\<close>

theorem pick_latest_version_same_version_counterexample:
  "map_sum id labels_versions
     (pick_latest_version (catalog_of [dcpp_entry ''/data'' ''v20190101'', dcpp_entry ''/mirror'' ''v20190101''])) =
     Inr [(0, Some ''v20190101''), (1, Some ''v20190101'')] \<and>
   group_key (grpby_cols (catalog_of [dcpp_entry ''/data'' ''v20190101'', dcpp_entry ''/mirror'' ''v20190101'']))
     (to_row (dcpp_entry ''/data'' ''v20190101'')) =
   group_key (grpby_cols (catalog_of [dcpp_entry ''/data'' ''v20190101'', dcpp_entry ''/mirror'' ''v20190101'']))
     (to_row (dcpp_entry ''/mirror'' ''v20190101'')) \<and>
   path (to_row (dcpp_entry ''/data'' ''v20190101'')) \<noteq> path (to_row (dcpp_entry ''/mirror'' ''v20190101''))"
  by (simp add: grpby_cols_catalog_of rows_catalog_of_2 catalog_eval dcpp_path_def)

text \<open>
  Claim C10.  In a table with distinct index labels, a row with a missing value in a
  grouping column is in the table that \<open>_pick_latest_version\<close> returns, as it was.
\<close>

theorem pick_latest_version_keeps_missing:
  assumes "distinct (map fst (rows df))" and "ir \<in> set (rows df)"
    and "c \<in> set (grpby_cols df)" and "isna (cells (snd ir) c)"
  shows "\<exists>df'. pick_latest_version df = Inr df' \<and> ir \<in> set (rows df')"
proof -
  have ne: "grpby_cols df \<noteq> []" using assms(3) by auto
  have "group_key (grpby_cols df) (snd ir) = None"
    using assms(3,4) by (auto simp add: group_key_def Let_def list_ex_iff)
  from not_removed_without_group [OF assms(1,2) this] assms(2)
  show ?thesis by (simp add: pick_latest_version_rows [OF ne])
qed

theorem pick_latest_version_keeps_missing_witness:
  "distinct (map fst (rows (catalog_of [cmip_entry ''CMIP'' ''v20190308'', cmip_entry ''CMIP'' ''v20200101'']))) \<and>
   (0, to_row (cmip_entry ''CMIP'' ''v20190308'')) \<in>
     set (rows (catalog_of [cmip_entry ''CMIP'' ''v20190308'', cmip_entry ''CMIP'' ''v20200101''])) \<and>
   ''dcpp_init_year'' \<in>
     set (grpby_cols (catalog_of [cmip_entry ''CMIP'' ''v20190308'', cmip_entry ''CMIP'' ''v20200101''])) \<and>
   isna (cells (snd (0::nat, to_row (cmip_entry ''CMIP'' ''v20190308''))) ''dcpp_init_year'') \<and>
   (\<exists>df'. pick_latest_version (catalog_of [cmip_entry ''CMIP'' ''v20190308'', cmip_entry ''CMIP'' ''v20200101'']) = Inr df' \<and>
      (0, to_row (cmip_entry ''CMIP'' ''v20190308'')) \<in> set (rows df'))"
proof -
  let ?x = "catalog_of [cmip_entry ''CMIP'' ''v20190308'', cmip_entry ''CMIP'' ''v20200101'']"
  have d: "distinct (map fst (rows ?x))" by (simp add: rows_catalog_of_2)
  have i: "(0, to_row (cmip_entry ''CMIP'' ''v20190308'')) \<in> set (rows ?x)"
    by (simp add: rows_catalog_of_2)
  have c: "''dcpp_init_year'' \<in> set (grpby_cols ?x)"
    by (simp add: grpby_cols_catalog_of)
  have m: "isna (cells (snd (0::nat, to_row (cmip_entry ''CMIP'' ''v20190308''))) ''dcpp_init_year'')"
    by (simp add: isna_def to_row_def cmip_entry_def)
  from pick_latest_version_keeps_missing [OF d i c m] d i c m show ?thesis by blast
qed

lemma cmip6_parser_cmip_path:
  "cmip6_parser reverse_filename_format extract_attr_with_regex (cmip_path ''CMIP'' ''v20190308'') =
     cmip_entry ''CMIP'' ''v20190308''"
  by (simp add: cmip_path_def cmip_entry_def parser_eval)

text \<open>
  Claim C4 fails on the code.  Take two versions of one file of the \<open>historical\<close>
  experiment: the rows are equal in every column but \<open>path\<close> and \<open>version\<close>, and have two
  distinct versions, so the older row should go.  \<open>cmip6_parser\<close> gives both the missing
  marker for \<open>dcpp_init_year\<close>, the rows fall into no group, and the selection keeps both.
\<close>

theorem pick_latest_version_nan_group_kept:
  "map_sum id labels_versions
     (pick_latest_version (catalog_of [cmip_entry ''CMIP'' ''v20190308'', cmip_entry ''CMIP'' ''v20200101''])) =
     Inr [(0, Some ''v20190308''), (1, Some ''v20200101'')]"
  by (simp add: grpby_cols_catalog_of rows_catalog_of_2 catalog_eval)

section \<open>Properties of \<open>build_cmip\<close> and \<open>cli\<close>\<close>

lemma set_rows_sort_values_path: "set (rows (sort_values_path df)) = set (rows df)"
  by (auto simp add: sort_values_path_def)

lemma isin_iff: "isin v xs \<longleftrightarrow> (\<exists>a \<in> set xs. v = Str a)"
  by (cases v) (auto simp add: isin_def)

lemma rows_filter_activity_id:
  "set (rows (filter_activity_id ids df)) =
     {ir \<in> set (rows df). \<exists>a \<in> set ids. cells (snd ir) ''activity_id'' = Str a}"
  by (auto simp add: filter_activity_id_def isin_iff)

lemma pick_latest_version_cmip6:
  assumes "columns df = cmip6_columns"
  shows "\<exists>df'. pick_latest_version df = Inr df' \<and> set (rows df') \<subseteq> set (rows df)"
proof -
  have "grpby_cols df \<noteq> []" by (simp add: grpby_cols_cmip6_columns [OF assms])
  then show ?thesis by (auto simp add: pick_latest_version_rows)
qed

text \<open>
  Claim C8.  When the traversal and the fetch of the vocabulary succeed, \<open>build_cmip\<close>
  for CMIP6 returns a catalog, whatever the rows hold; each of its rows was assembled by
  the builder and has an \<open>activity_id\<close> of the fetched list; without version selection
  it holds every such row.
\<close>

theorem build_cmip_activity_ids:
  assumes "get_asset_list e root_path depth = Inr filelist"
    and "fetch_activity_ids e = Inr activity_ids"
  shows "\<exists>df. build_cmip e tr root_path 6 depth pick =
              (tr @ [Traversed root_path depth, Fetched], Inr df) \<and>
     (\<forall>ir \<in> set (rows df). \<exists>a \<in> set activity_ids. cells (snd ir) ''activity_id'' = Str a) \<and>
     set (rows df) \<subseteq>
       set (rows (Builder cmip6_columns (excluded e exclude_patterns) filelist
                   (cmip6_parser (matcher_of e) (extractor_of e)))) \<and>
     (\<not> pick \<longrightarrow> set (rows df) =
        {ir \<in> set (rows (Builder cmip6_columns (excluded e exclude_patterns) filelist
                           (cmip6_parser (matcher_of e) (extractor_of e)))).
           \<exists>a \<in> set activity_ids. cells (snd ir) ''activity_id'' = Str a})"
proof -
  let ?b = "Builder cmip6_columns (excluded e exclude_patterns) filelist
              (cmip6_parser (matcher_of e) (extractor_of e))"
  let ?f = "filter_activity_id activity_ids ?b"
  have cf: "columns ?f = cmip6_columns"
    by (simp add: filter_activity_id_def Builder_def Let_def)
  from pick_latest_version_cmip6 [OF cf] obtain p where
    p: "pick_latest_version ?f = Inr p" and ps: "set (rows p) \<subseteq> set (rows ?f)" by blast
  let ?df = "sort_values_path (if pick then p else ?f)"
  have b: "build_cmip e tr root_path 6 depth pick =
             (tr @ [Traversed root_path depth, Fetched], Inr ?df)"
    using assms p
    by (simp add: build_cmip_def finish_cmip_def cmip_columns_def parsers_def Let_def)
  have s: "set (rows ?df) \<subseteq> set (rows ?f)"
    using ps by (simp add: set_rows_sort_values_path)
  have e: "\<not> pick \<longrightarrow> set (rows ?df) = set (rows ?f)"
    by (simp add: set_rows_sort_values_path)
  from b s e show ?thesis
    unfolding rows_filter_activity_id by (intro exI [of _ ?df]) blast
qed

theorem build_cmip_activity_ids_witness:
  "get_asset_list sample_env (Some ''/CMIP6'') 4 =
     Inr [cmip_path ''TestMIP'' ''v20190308'', cmip_path ''CMIP'' ''v20190308''] \<and>
   fetch_activity_ids sample_env = Inr [''CMIP'', ''DCPP'', ''ScenarioMIP''] \<and>
   (\<exists>df. build_cmip sample_env [] (Some ''/CMIP6'') 6 4 False =
           ([Traversed (Some ''/CMIP6'') 4, Fetched], Inr df) \<and>
         map (\<lambda>ir. cells (snd ir) ''activity_id'') (rows df) = [Str ''CMIP''])"
proof -
  have g: "get_asset_list sample_env (Some ''/CMIP6'') 4 =
     Inr [cmip_path ''TestMIP'' ''v20190308'', cmip_path ''CMIP'' ''v20190308'']"
    by (simp add: sample_env_def)
  have f: "fetch_activity_ids sample_env = Inr [''CMIP'', ''DCPP'', ''ScenarioMIP'']"
    by (simp add: sample_env_def)
  have t: "cmip6_parser reverse_filename_format extract_attr_with_regex
      (cmip_path ''TestMIP'' ''v20190308'') = cmip_entry ''TestMIP'' ''v20190308''"
    by (simp add: cmip_path_def cmip_entry_def parser_eval)
  have b: "rows (Builder cmip6_columns (excluded sample_env exclude_patterns)
       [cmip_path ''TestMIP'' ''v20190308'', cmip_path ''CMIP'' ''v20190308'']
       (cmip6_parser (matcher_of sample_env) (extractor_of sample_env))) =
     [(0, to_row (cmip_entry ''TestMIP'' ''v20190308'')), (1, to_row (cmip_entry ''CMIP'' ''v20190308''))]"
    by (simp add: Builder_def sample_env_def t cmip6_parser_cmip_path upt_rec)
  from build_cmip_activity_ids [OF g f, of "[]" False] obtain df where
    r: "build_cmip sample_env [] (Some ''/CMIP6'') 6 4 False =
          ([Traversed (Some ''/CMIP6'') 4, Fetched], Inr df)"
    by auto
  have ca: "cells (to_row (cmip_entry a v)) ''activity_id'' = Str a" for a v
    by (simp add: to_row_def cmip_entry_def)
  have pa: "path (to_row (cmip_entry a v)) = Some (cmip_path a v)" for a v
    by (simp add: to_row_def str_cell_def cmip_entry_def)
  have "rows df = [(1, to_row (cmip_entry ''CMIP'' ''v20190308''))]"
    using r g f
    by (auto simp add: build_cmip_def finish_cmip_def cmip_columns_def parsers_def Let_def
        sort_values_path_def filter_activity_id_def isin_def b ca pa)
  then have m: "map (\<lambda>ir. cells (snd ir) ''activity_id'') (rows df) = [Str ''CMIP'']"
    by (simp add: ca)
  have "\<exists>df. build_cmip sample_env [] (Some ''/CMIP6'') 6 4 False =
           ([Traversed (Some ''/CMIP6'') 4, Fetched], Inr df) \<and>
         map (\<lambda>ir. cells (snd ir) ''activity_id'') (rows df) = [Str ''CMIP'']"
    by (rule exI [of _ df]) (rule conjI [OF r m])
  then show ?thesis by (rule conjI [OF g conjI [OF f]])
qed

text \<open>
  Claim C9.  With a \<open>cmip_version\<close> other than 5 and 6 (or none), or with no
  \<open>csv_filepath\<close>, \<open>cli\<close> raises \<open>ValueError\<close> and the world is as it was: nothing was
  traversed, fetched or written.
\<close>

theorem cli_invalid_configuration:
  assumes "cmip_version \<notin> {Some 5, Some 6} \<or> csv_filepath = None"
  shows "cli e tr root_path depth pick cmip_version csv_filepath = (tr, Inl ValueError)"
  using assms by (auto simp add: cli_def split: option.splits)

theorem cli_invalid_configuration_witness:
  "Some 7 \<notin> {Some 5, Some (6::int)} \<and>
   cli sample_env [] (Some ''/CMIP6'') 4 False (Some 7) (Some ''./cmip7.csv.gz'') = ([], Inl ValueError) \<and>
   cli sample_env [] (Some ''/CMIP6'') 4 False (Some 6) None = ([], Inl ValueError)"
  using cli_invalid_configuration [of "Some 7" "Some ''./cmip7.csv.gz''" sample_env "[]" "Some ''/CMIP6''" 4 False]
    cli_invalid_configuration [of "Some 6" None sample_env "[]" "Some ''/CMIP6''" 4 False]
  by simp

text \<open>With a valid configuration the traversal is the first thing that happens.\<close>

lemma cli_valid_traverses:
  assumes "v = 5 \<or> v = 6"
  shows "\<exists>rest res. cli e tr root_path depth pick (Some v) (Some csv) =
           (tr @ Traversed root_path depth # rest, res)"
  using assms
  by (auto simp add: cli_def build_cmip_def finish_cmip_def Let_def
      split: sum.splits prod.splits if_splits)

text \<open>Called directly, \<open>build_cmip\<close> walks the tree before it looks the version up.\<close>

lemma build_cmip_unsupported_version:
  assumes "v \<noteq> 5" and "v \<noteq> 6" and "get_asset_list e root_path depth = Inr filelist"
  shows "build_cmip e tr root_path v depth pick = (tr @ [Traversed root_path depth], Inl KeyError)"
  using assms by (simp add: build_cmip_def cmip_columns_def Let_def)

end
